theory Spec2Isabelle
  imports Main "HOL-Library.AList"
begin

section \<open>Values exchanged with the backend\<close>

text \<open>
  The client handles decoded JSON as plain Python values. \<open>JNull\<close> is Python's
  \<open>None\<close>, which is also what \<open>make_request\<close> returns after a reported
  failure. A dict is an association list in insertion order. Floating-point numbers are
  left out of the model.
\<close>

datatype json =
    JNull
  | JBool bool
  | JInt int
  | JStr string
  | JList "json list"
  | JObj "(string \<times> json) list"

text \<open>Python exceptions that the modelled code can meet.\<close>

datatype exn =
    ConnectionError string
  | HTTPError int string
  | JSONDecodeError
  | ValueError string
  | KeyError string
  | TypeError
  | AttributeError
  | StopIteration
  | RecursionError

text \<open>\<open>requests.exceptions.RequestException\<close> and its subclasses.\<close>

fun is_RequestException :: "exn \<Rightarrow> bool" where
  "is_RequestException (ConnectionError m) = True"
| "is_RequestException (HTTPError s u) = True"
| "is_RequestException e = False"

text \<open>\<open>ValueError\<close> and its subclass \<open>json.JSONDecodeError\<close>.\<close>

fun is_ValueError :: "exn \<Rightarrow> bool" where
  "is_ValueError JSONDecodeError = True"
| "is_ValueError (ValueError m) = True"
| "is_ValueError e = False"

text \<open>Truthiness, as tested by \<open>if result:\<close>.\<close>

fun truthy :: "json \<Rightarrow> bool" where
  "truthy JNull = False"
| "truthy (JBool b) = b"
| "truthy (JInt n) = (n \<noteq> 0)"
| "truthy (JStr s) = (s \<noteq> [])"
| "truthy (JList xs) = (xs \<noteq> [])"
| "truthy (JObj kvs) = (kvs \<noteq> [])"

section \<open>String helpers\<close>

text \<open>
  Characters are code points below 256. \<open>isspace\<close> lists the ones Python's
  \<open>str.strip()\<close> removes in that range. \<open>lower\<close> maps the letters
  \<open>A\<close> to \<open>Z\<close>, which is all the test for \<open>application/json\<close>
  can depend on.
\<close>

definition isspace :: "char \<Rightarrow> bool" where
  "isspace c =
     (let n = of_char c :: nat
      in (9 \<le> n \<and> n \<le> 13) \<or> (28 \<le> n \<and> n \<le> 32) \<or> n = 133 \<or> n = 160)"

definition strip :: "string \<Rightarrow> string" where
  "strip s = rev (dropWhile isspace (rev (dropWhile isspace s)))"

definition startswith :: "string \<Rightarrow> string \<Rightarrow> bool" where
  "startswith s p = (take (length p) s = p)"

definition endswith :: "string \<Rightarrow> string \<Rightarrow> bool" where
  "endswith s p = (length p \<le> length s \<and> drop (length s - length p) s = p)"

definition lower_char :: "char \<Rightarrow> char" where
  "lower_char c =
     (let n = of_char c :: nat
      in if 65 \<le> n \<and> n \<le> 90 then char_of (n + 32) else c)"

definition lower :: "string \<Rightarrow> string" where
  "lower s = map lower_char s"

text \<open>The substring test \<open>sub in s\<close>.\<close>

fun contains :: "string \<Rightarrow> string \<Rightarrow> bool" where
  "contains [] sub = (sub = [])"
| "contains (c # cs) sub = (startswith (c # cs) sub \<or> contains cs sub)"

section \<open>The API client\<close>

record response =
  status_code :: int
  content_type :: "string option"
  body_text :: string

datatype outcome = Raises exn | Returns response

record request =
  rq_method :: string
  rq_url :: string
  rq_headers :: "(string \<times> string) list"
  rq_json :: json
  rq_params :: json

text \<open>The calls of \<open>st.error\<close>, \<open>st.success\<close> and \<open>st.write\<close>, by message.\<close>

datatype msg =
    ErrProcesar exn
  | ErrDatos string
  | ErrTipoContenido string
  | ErrUrl string
  | ErrNoJson string
  | ErrConexion exn
  | ErrTitulo
  | ErrFechas
  | OkExamen json
  | ErrExamen
  | OkPregunta string
  | ErrPregunta string
  | ErrInesperado exn
  | Detalles exn
  | OkExamenCreado
  | RespuestaBackend
  | StJson json
  | OkEnvio
  | ErrEnvioCodigo int string
  | ErrEnvio exn

text \<open>
  \<open>decode_json\<close>, the closure of \<open>make_request\<close>. \<open>loads\<close> is
  \<open>json.loads\<close>, \<open>max_depth\<close> the captured local.
\<close>

definition decode_json ::
    "(string \<Rightarrow> exn + json) \<Rightarrow> nat \<Rightarrow> string \<Rightarrow> nat \<Rightarrow> exn + json" where
  "decode_json loads max_depth text depth =
     (if depth > max_depth then Inl (ValueError ''limite de recursion'')
      else
        (case loads text of
           Inr v \<Rightarrow> Inr v
         | Inl e \<Rightarrow>
             if e = JSONDecodeError then
               (let cleaned_text = strip text
                in if startswith cleaned_text ''['' \<and> endswith cleaned_text '']''
                   then loads cleaned_text
                   else if startswith cleaned_text ''{'' \<and> endswith cleaned_text ''}''
                   then loads cleaned_text
                   else Inl e)
             else Inl e))"

text \<open>\<open>Response.raise_for_status\<close> of the requests library.\<close>

definition raise_for_status :: "string \<Rightarrow> response \<Rightarrow> exn option" where
  "raise_for_status url r =
     (if 400 \<le> status_code r \<and> status_code r < 600
      then Some (HTTPError (status_code r) url) else None)"

text \<open>The handler \<open>except requests.exceptions.RequestException\<close>.\<close>

definition except_RequestException :: "string \<Rightarrow> exn \<Rightarrow> (exn + json) \<times> msg list" where
  "except_RequestException url e =
     (if is_RequestException e then (Inr JNull, [ErrConexion e, ErrUrl url])
      else (Inl e, []))"

text \<open>
  The body of \<open>make_request\<close> once the URL is built and \<open>requests.request\<close>
  has returned or raised: the value returned (or the exception that escapes) and the
  messages shown.
\<close>

definition handle_outcome ::
    "(string \<Rightarrow> exn + json) \<Rightarrow> string \<Rightarrow> outcome \<Rightarrow> (exn + json) \<times> msg list" where
  "handle_outcome loads url oc =
     (case oc of
        Raises e \<Rightarrow> except_RequestException url e
      | Returns r \<Rightarrow>
          (case raise_for_status url r of
             Some e \<Rightarrow> except_RequestException url e
           | None \<Rightarrow>
               (let ctype = (case content_type r of None \<Rightarrow> [] | Some c \<Rightarrow> c)
                in if contains (lower ctype) ''application/json'' then
                     (if body_text r = [] then (Inr (JList []), [])
                      else
                        (case decode_json loads 100 (body_text r) 0 of
                           Inr v \<Rightarrow> (Inr v, [])
                         | Inl e \<Rightarrow>
                             if is_ValueError e then
                               (Inr JNull,
                                [ErrProcesar e, ErrDatos (take 500 (body_text r)),
                                 ErrTipoContenido ctype, ErrUrl url])
                             else (Inl e, [])))
                   else
                     (Inr JNull,
                      [ErrNoJson ctype, ErrDatos (take 500 (body_text r)), ErrUrl url]))))"

section \<open>A model of \<open>json.loads\<close>\<close>

text \<open>
  \<open>json.loads\<close> belongs to the Python library, so the client's functions take it
  as the parameter \<open>loads\<close>. For concrete runs, \<open>json_loads\<close> below
  decodes the fragment of JSON made of arrays, objects, integers, strings without
  escapes and the three literals, with blanks between tokens; a repeated key keeps its
  first position and its last value, as a Python dict does. Text outside the fragment
  (fractions, exponents, escapes) is reported as undecodable here. The lexer splits the
  text into tokens; the parser keeps the open containers on a stack.
\<close>

datatype token = TLBrack | TRBrack | TLBrace | TRBrace | TComma | TColon | TStr string | TVal json

definition is_digit :: "char \<Rightarrow> bool" where
  "is_digit c = (let n = of_char c :: nat in 48 \<le> n \<and> n \<le> 57)"

definition json_ws :: "char \<Rightarrow> bool" where
  "json_ws c = (let n = of_char c :: nat in n = 32 \<or> n = 9 \<or> n = 10 \<or> n = 13)"

definition digits_val :: "string \<Rightarrow> nat" where
  "digits_val ds = foldl (\<lambda>a c. 10 * a + (of_char c - 48)) 0 ds"

definition str_ok :: "string \<Rightarrow> bool" where
  "str_ok s = list_all (\<lambda>x. x \<noteq> CHR 0x5C \<and> 32 \<le> (of_char x :: nat)) s"

definition frac_start :: "string \<Rightarrow> bool" where
  "frac_start r = (case r of [] \<Rightarrow> False | x # _ \<Rightarrow> x = CHR ''.'' \<or> x = CHR ''e'' \<or> x = CHR ''E'')"

function lex :: "string \<Rightarrow> token list option" where
  "lex [] = Some []"
| "lex (c # cs) =
     (if json_ws c then lex cs
      else if c = CHR ''['' then map_option (Cons TLBrack) (lex cs)
      else if c = CHR '']'' then map_option (Cons TRBrack) (lex cs)
      else if c = CHR ''{'' then map_option (Cons TLBrace) (lex cs)
      else if c = CHR ''}'' then map_option (Cons TRBrace) (lex cs)
      else if c = CHR '','' then map_option (Cons TComma) (lex cs)
      else if c = CHR '':'' then map_option (Cons TColon) (lex cs)
      else if c = CHR 0x22 then
        (if dropWhile (\<lambda>x. x \<noteq> CHR 0x22) cs = [] \<or> \<not> str_ok (takeWhile (\<lambda>x. x \<noteq> CHR 0x22) cs)
         then None
         else map_option (Cons (TStr (takeWhile (\<lambda>x. x \<noteq> CHR 0x22) cs)))
                (lex (tl (dropWhile (\<lambda>x. x \<noteq> CHR 0x22) cs))))
      else if c = CHR ''-'' then
        (if takeWhile is_digit cs = []
            \<or> (1 < length (takeWhile is_digit cs) \<and> hd cs = CHR ''0'')
            \<or> frac_start (dropWhile is_digit cs)
         then None
         else map_option (Cons (TVal (JInt (- int (digits_val (takeWhile is_digit cs))))))
                (lex (dropWhile is_digit cs)))
      else if is_digit c then
        (if (takeWhile is_digit cs \<noteq> [] \<and> c = CHR ''0'') \<or> frac_start (dropWhile is_digit cs)
         then None
         else map_option (Cons (TVal (JInt (int (digits_val (c # takeWhile is_digit cs))))))
                (lex (dropWhile is_digit cs)))
      else if startswith (c # cs) ''true'' then map_option (Cons (TVal (JBool True))) (lex (drop 3 cs))
      else if startswith (c # cs) ''false'' then map_option (Cons (TVal (JBool False))) (lex (drop 4 cs))
      else if startswith (c # cs) ''null'' then map_option (Cons (TVal JNull)) (lex (drop 3 cs))
      else None)"
  by pat_completeness auto
termination
proof (relation "measure length")
  fix c :: char and cs :: string
  have shorter: "length (dropWhile P cs) \<le> length cs" for P :: "char \<Rightarrow> bool"
    by (rule length_dropWhile_le)
  show "(tl (dropWhile (\<lambda>x. x \<noteq> CHR 0x22) cs), c # cs) \<in> measure length"
    using shorter [of "\<lambda>x. x \<noteq> CHR 0x22"] by simp
  show "(dropWhile is_digit cs, c # cs) \<in> measure length"
    using shorter [of is_digit] by simp
  show "(dropWhile is_digit cs, c # cs) \<in> measure length"
    using shorter [of is_digit] by simp
qed auto

datatype frame = FArr "json list" | FObj "(string \<times> json) list" "string option"

datatype mode = Val | ValOrClose | KeyOrClose | Key | Colon | Sep | Done json

fun push_value :: "json \<Rightarrow> frame list \<Rightarrow> (mode \<times> frame list) option" where
  "push_value v [] = Some (Done v, [])"
| "push_value v (FArr acc # st) = Some (Sep, FArr (acc @ [v]) # st)"
| "push_value v (FObj kvs (Some k) # st) = Some (Sep, FObj (AList.update k v kvs) None # st)"
| "push_value v (FObj kvs None # st) = None"

fun open_value :: "token \<Rightarrow> frame list \<Rightarrow> (mode \<times> frame list) option" where
  "open_value (TVal v) st = push_value v st"
| "open_value (TStr s) st = push_value (JStr s) st"
| "open_value TLBrack st = Some (ValOrClose, FArr [] # st)"
| "open_value TLBrace st = Some (KeyOrClose, FObj [] None # st)"
| "open_value t st = None"

fun close_frame :: "token \<Rightarrow> frame list \<Rightarrow> (mode \<times> frame list) option" where
  "close_frame TRBrack (FArr acc # st) = push_value (JList acc) st"
| "close_frame TRBrace (FObj kvs None # st) = push_value (JObj kvs) st"
| "close_frame t st = None"

fun set_key :: "token \<Rightarrow> frame list \<Rightarrow> (mode \<times> frame list) option" where
  "set_key (TStr k) (FObj kvs None # st) = Some (Colon, FObj kvs (Some k) # st)"
| "set_key t st = None"

fun step :: "mode \<Rightarrow> frame list \<Rightarrow> token \<Rightarrow> (mode \<times> frame list) option" where
  "step Val st t = open_value t st"
| "step ValOrClose st t = (if t = TRBrack then close_frame t st else open_value t st)"
| "step KeyOrClose st t = (if t = TRBrace then close_frame t st else set_key t st)"
| "step Key st t = set_key t st"
| "step Colon st t = (if t = TColon then Some (Val, st) else None)"
| "step Sep st t =
     (if t = TComma then (case st of FArr acc # r \<Rightarrow> Some (Val, st) | _ \<Rightarrow> Some (Key, st))
      else close_frame t st)"
| "step (Done v) st t = None"

fun run :: "mode \<Rightarrow> frame list \<Rightarrow> token list \<Rightarrow> json option" where
  "run m st [] = (case m of Done v \<Rightarrow> Some v | _ \<Rightarrow> None)"
| "run m st (t # ts) = (case step m st t of None \<Rightarrow> None | Some (m', st') \<Rightarrow> run m' st' ts)"

definition json_loads :: "string \<Rightarrow> exn + json" where
  "json_loads s =
     (case lex s of
        None \<Rightarrow> Inl JSONDecodeError
      | Some ts \<Rightarrow> (case run Val [] ts of None \<Rightarrow> Inl JSONDecodeError | Some v \<Rightarrow> Inr v))"

section \<open>Requests against the backend\<close>

text \<open>
  \<open>build_url\<close> and \<open>ENDPOINTS\<close> come from the module \<open>api_routes\<close>,
  \<open>API_BASE_URL\<close> and \<open>TOKEN\<close> from the process environment; they are
  parameters here. \<open>network\<close> stands for the backend behind
  \<open>requests.request\<close>: what it answers may depend on the calls made before.
\<close>

record env =
  loads :: "string \<Rightarrow> exn + json"
  build_url :: "string \<Rightarrow> string"
  ENDPOINTS :: "string \<Rightarrow> string"
  API_BASE_URL :: string
  TOKEN :: string
  network :: "request list \<Rightarrow> request \<Rightarrow> outcome"

text \<open>The calls issued so far, oldest first, and the messages shown so far.\<close>

record world =
  calls :: "request list"
  ui :: "msg list"

definition st :: "msg list \<Rightarrow> world \<Rightarrow> world" where
  "st ms w = w\<lparr>ui := ui w @ ms\<rparr>"

definition get_headers :: "env \<Rightarrow> (string \<times> string) list" where
  "get_headers E = [(''Authorization'', ''Bearer '' @ TOKEN E)]"

definition make_request ::
    "env \<Rightarrow> string \<Rightarrow> string \<Rightarrow> (string \<times> string) list \<Rightarrow> json \<Rightarrow> json \<Rightarrow> world
      \<Rightarrow> (exn + json) \<times> world" where
  "make_request E method endpoint headers data params w =
     (let url = build_url E endpoint;
          rq = \<lparr>rq_method = method, rq_url = url, rq_headers = headers,
                rq_json = data, rq_params = params\<rparr>;
          (res, ms) = handle_outcome (loads E) url (network E (calls w) rq)
      in (res, st ms (w\<lparr>calls := calls w @ [rq]\<rparr>)))"

section \<open>Dates\<close>

text \<open>
  A \<open>datetime.date\<close>: dates compare by year, then month, then day.
  \<open>isoformat\<close> is \<open>YYYY-MM-DD\<close>, for the years 1 to 9999 a date can have.
\<close>

record date =
  year :: nat
  month :: nat
  day :: nat

definition date_lt :: "date \<Rightarrow> date \<Rightarrow> bool" where
  "date_lt a b =
     (year a < year b \<or> (year a = year b \<and>
        (month a < month b \<or> (month a = month b \<and> day a < day b))))"

definition date_le :: "date \<Rightarrow> date \<Rightarrow> bool" where
  "date_le a b = (date_lt a b \<or> (year a = year b \<and> month a = month b \<and> day a = day b))"

definition digit_char :: "nat \<Rightarrow> char" where
  "digit_char n = char_of (48 + n mod 10)"

definition isoformat :: "date \<Rightarrow> string" where
  "isoformat d =
     [digit_char (year d div 1000), digit_char (year d div 100), digit_char (year d div 10),
      digit_char (year d), CHR ''-'', digit_char (month d div 10), digit_char (month d),
      CHR ''-'', digit_char (day d div 10), digit_char (day d)]"

section \<open>Creating an exam and its questions\<close>

record ExamenRequestDTO =
  titulo :: string
  descripcion :: string
  fechaInicio :: date
  fechaFin :: date
  creadorId :: int
  preguntasIds :: "int list"

definition to_dict :: "ExamenRequestDTO \<Rightarrow> json" where
  "to_dict d =
     JObj [(''titulo'', JStr (titulo d)),
           (''descripcion'', JStr (descripcion d)),
           (''fechaInicio'', JStr (isoformat (fechaInicio d))),
           (''fechaFin'', JStr (isoformat (fechaFin d))),
           (''creadorId'', JInt (creadorId d)),
           (''preguntasIds'', JList (map JInt (preguntasIds d)))]"

text \<open>One entry of the form's list \<open>preguntas\<close>.\<close>

record pregunta =
  textoPregunta :: string
  tipoPregunta :: string
  opciones :: "(string \<times> bool) list"
  puntos :: int

text \<open>\<open>d.get(k)\<close>: only a dict has the method.\<close>

fun py_get :: "json \<Rightarrow> string \<Rightarrow> exn + json" where
  "py_get (JObj kvs) k = Inr (case map_of kvs k of None \<Rightarrow> JNull | Some v \<Rightarrow> v)"
| "py_get v k = Inl AttributeError"

definition pregunta_payload :: "json \<Rightarrow> pregunta \<Rightarrow> json" where
  "pregunta_payload examen_id p =
     JObj [(''textoPregunta'', JStr (textoPregunta p)),
           (''tipoPregunta'', JStr (tipoPregunta p)),
           (''examenId'', examen_id),
           (''puntos'', JInt (puntos p))]"

text \<open>The loop \<open>for pregunta in preguntas\<close> with its own \<open>try\<close>.\<close>

fun enviar_preguntas :: "env \<Rightarrow> json \<Rightarrow> pregunta list \<Rightarrow> world \<Rightarrow> world" where
  "enviar_preguntas E examen_id [] w = w"
| "enviar_preguntas E examen_id (p # ps) w =
     (case make_request E ''POST'' (ENDPOINTS E ''preguntas'') (get_headers E)
             (pregunta_payload examen_id p) JNull w of
        (Inr pregunta_result, w1) \<Rightarrow>
          enviar_preguntas E examen_id ps
            (st [if truthy pregunta_result then OkPregunta (textoPregunta p)
                 else ErrPregunta (textoPregunta p)] w1)
      | (Inl e, w1) \<Rightarrow>
          enviar_preguntas E examen_id ps (st [ErrInesperado e, Detalles e] w1))"

text \<open>
  How a handler ends: it returns, an exception leaves it, or \<open>st.rerun()\<close>
  restarts the script.
\<close>

datatype salida = Termina | Propaga exn | Rerun

text \<open>
  The branch of \<open>crear_examen\<close> run when the form is submitted. The test
  \<open>fecha_inicio >= fecha_fin\<close> reads \<open>date_le fecha_fin fecha_inicio\<close>.
\<close>

definition crear_examen ::
    "env \<Rightarrow> string \<Rightarrow> string \<Rightarrow> date \<Rightarrow> date \<Rightarrow> pregunta list \<Rightarrow> world
      \<Rightarrow> salida \<times> world" where
  "crear_examen E titulo_in descripcion_in fecha_inicio fecha_fin preguntas w =
     (if titulo_in = [] then (Termina, st [ErrTitulo] w)
      else if date_le fecha_fin fecha_inicio then (Termina, st [ErrFechas] w)
      else
        (let examen_sin_preguntas =
               \<lparr>titulo = titulo_in, descripcion = descripcion_in,
                fechaInicio = fecha_inicio, fechaFin = fecha_fin,
                creadorId = 1, preguntasIds = []\<rparr>
         in case make_request E ''POST'' (ENDPOINTS E ''examenes'') (get_headers E)
                   (to_dict examen_sin_preguntas) JNull w of
              (Inl e, w1) \<Rightarrow> (Propaga e, w1)
            | (Inr result, w1) \<Rightarrow>
                if truthy result then
                  (case py_get result ''id'' of
                     Inr examen_id \<Rightarrow>
                       (Termina, enviar_preguntas E examen_id preguntas (st [OkExamen examen_id] w1))
                   | Inl e \<Rightarrow>
                       (if truthy result
                        then (Rerun,
                              st [ErrInesperado e, Detalles e, OkExamenCreado, StJson result] w1)
                        else (Termina,
                              st [ErrInesperado e, Detalles e, ErrExamen, RespuestaBackend,
                                  StJson result] w1)))
                else (Termina, st [ErrExamen] w1)))"

section \<open>Exams offered to a student\<close>

text \<open>
  A row of the table of exams, with the two date columns as
  \<open>pd.to_datetime(...).dt.date\<close> reads them.
\<close>

record examen =
  ex_id :: int
  ex_titulo :: string
  ex_fechaInicio :: date
  ex_fechaFin :: date
  ex_preguntasIds :: json

text \<open>\<open>lambda x: isinstance(x, list) and len(x) > 0\<close>\<close>

fun lista_no_vacia :: "json \<Rightarrow> bool" where
  "lista_no_vacia (JList xs) = (0 < length xs)"
| "lista_no_vacia v = False"

definition examenes_activos :: "date \<Rightarrow> examen list \<Rightarrow> examen list" where
  "examenes_activos hoy df_examenes =
     filter (\<lambda>e. lista_no_vacia (ex_preguntasIds e))
       (filter (\<lambda>e. date_le (ex_fechaInicio e) hoy \<and> date_le hoy (ex_fechaFin e)) df_examenes)"

section \<open>Answering and submitting an exam\<close>

text \<open>An entry of \<open>st.session_state.respuestas\<close>, keyed by the question's id.\<close>

record respuesta =
  tipo :: string
  contenido :: string

type_synonym respuestas = "(json \<times> respuesta) list"

text \<open>\<open>d[k]\<close>\<close>

fun getitem :: "json \<Rightarrow> string \<Rightarrow> exn + json" where
  "getitem (JObj kvs) k = (case map_of kvs k of None \<Rightarrow> Inl (KeyError k) | Some v \<Rightarrow> Inr v)"
| "getitem v k = Inl TypeError"

text \<open>\<open>d.get(k, default)\<close>\<close>

fun py_get_default :: "json \<Rightarrow> string \<Rightarrow> json \<Rightarrow> exn + json" where
  "py_get_default (JObj kvs) k dflt = Inr (case map_of kvs k of None \<Rightarrow> dflt | Some v \<Rightarrow> v)"
| "py_get_default v k dflt = Inl AttributeError"

text \<open>
  A value used as a dict key. Keys that are equal are one key, so \<open>True\<close> is the key
  \<open>1\<close> and \<open>False\<close> the key \<open>0\<close>; a list or a dict cannot be a key. The
  session below keeps keys in this form; the program reads a stored key only through
  \<open>int(...)\<close>, which gives the same number for both forms.
\<close>

fun clave :: "json \<Rightarrow> exn + json" where
  "clave (JBool b) = Inr (JInt (if b then 1 else 0))"
| "clave (JList xs) = Inl TypeError"
| "clave (JObj kvs) = Inl TypeError"
| "clave v = Inr v"

text \<open>
  The assignment \<open>respuestas[pregunta['id']] = {'tipo': t, 'respuesta': r}\<close>.
  A dict keeps a key's first position and its last value.
\<close>

definition guardar :: "json \<Rightarrow> string \<Rightarrow> string \<Rightarrow> respuestas \<Rightarrow> exn + respuestas" where
  "guardar pregunta_id t r rs =
     (case clave pregunta_id of
        Inl e \<Rightarrow> Inl e
      | Inr k \<Rightarrow> Inr (AList.update k \<lparr>tipo = t, contenido = r\<rparr> rs))"

text \<open>\<open>for opt in opciones\<close>: a list gives its items, a dict its keys, a string its characters.\<close>

fun iterar :: "json \<Rightarrow> exn + json list" where
  "iterar (JList xs) = Inr xs"
| "iterar (JObj kvs) = Inr (map (\<lambda>kv. JStr (fst kv)) kvs)"
| "iterar (JStr s) = Inr (map (\<lambda>c. JStr [c]) s)"
| "iterar v = Inl TypeError"

text \<open>\<open>[opt['textoPregunta'] for opt in opciones]\<close>\<close>

fun textos_opciones :: "json list \<Rightarrow> exn + json list" where
  "textos_opciones [] = Inr []"
| "textos_opciones (opt # rest) =
     (case getitem opt ''textoPregunta'' of
        Inl e \<Rightarrow> Inl e
      | Inr t \<Rightarrow> (case textos_opciones rest of Inl e \<Rightarrow> Inl e | Inr ts \<Rightarrow> Inr (t # ts)))"

text \<open>
  \<open>st.radio(label, opciones=[...], key=..., help=...)\<close>. Streamlit's
  \<open>radio(label, options, ...)\<close> has no parameter \<open>opciones\<close>, so once its
  arguments are evaluated the call raises \<open>TypeError\<close>, whatever the labels.
\<close>

definition st_radio_opciones :: "json list \<Rightarrow> exn + string option" where
  "st_radio_opciones etiquetas = Inl TypeError"

text \<open>
  The loop that draws each question and stores the answer. \<open>text_area\<close> gives the
  current text of the \<open>st.text_area\<close> drawn for a question id (two questions of one
  page are taken to have different widget keys). An exception leaves the loop with the
  session as it was changed so far.
\<close>

fun mostrar_preguntas ::
    "(json \<Rightarrow> string) \<Rightarrow> json list \<Rightarrow> respuestas \<Rightarrow> exn option \<times> respuestas" where
  "mostrar_preguntas text_area [] rs = (None, rs)"
| "mostrar_preguntas text_area (pregunta # rest) rs =
     (case getitem pregunta ''id'' of
        Inl e \<Rightarrow> (Some e, rs)
      | Inr pid \<Rightarrow>
     (case getitem pregunta ''textoPregunta'' of
        Inl e \<Rightarrow> (Some e, rs)
      | Inr titulo_pregunta \<Rightarrow>
     (case py_get_default pregunta ''opciones'' (JList []) of
        Inl e \<Rightarrow> (Some e, rs)
      | Inr opciones_pregunta \<Rightarrow>
     (case py_get pregunta ''tipo'' of
        Inl e \<Rightarrow> (Some e, rs)
      | Inr tp \<Rightarrow>
          if tp = JStr ''SELECCION_UNICA'' then
            (case iterar opciones_pregunta of
               Inl e \<Rightarrow> (Some e, rs)
             | Inr opts \<Rightarrow>
            (case textos_opciones opts of
               Inl e \<Rightarrow> (Some e, rs)
             | Inr etiquetas \<Rightarrow>
            (case st_radio_opciones etiquetas of
               Inl e \<Rightarrow> (Some e, rs)
             | Inr None \<Rightarrow> mostrar_preguntas text_area rest rs
             | Inr (Some r) \<Rightarrow>
                 if r = [] then mostrar_preguntas text_area rest rs
                 else
                   (case guardar pid ''SELECCION_UNICA'' r rs of
                      Inl e \<Rightarrow> (Some e, rs)
                    | Inr rs1 \<Rightarrow> mostrar_preguntas text_area rest rs1))))
          else if tp = JStr ''TEXTO_ABIERTO'' then
            (if text_area pid = [] then mostrar_preguntas text_area rest rs
             else
               (case guardar pid ''TEXTO_ABIERTO'' (text_area pid) rs of
                  Inl e \<Rightarrow> (Some e, rs)
                | Inr rs1 \<Rightarrow> mostrar_preguntas text_area rest rs1))
          else mostrar_preguntas text_area rest rs))))"

text \<open>\<open>int(x)\<close> on a decoded value.\<close>

fun digits_ok :: "string \<Rightarrow> bool" where
  "digits_ok [] = False"
| "digits_ok [c] = is_digit c"
| "digits_ok (c # d # r) =
     (is_digit c \<and> (if d = CHR ''_'' then digits_ok r else digits_ok (d # r)))"

text \<open>
  The blanks \<open>int()\<close> skips around a number: the ASCII ones (9 to 13 and the
  space) and, below 256, the two other code points it turns into a space.
\<close>

definition int_space :: "char \<Rightarrow> bool" where
  "int_space c =
     (let n = of_char c :: nat
      in (9 \<le> n \<and> n \<le> 13) \<or> n = 32 \<or> n = 133 \<or> n = 160)"

definition int_of_str :: "string \<Rightarrow> exn + int" where
  "int_of_str s =
     (let t = rev (dropWhile int_space (rev (dropWhile int_space s)));
          neg = startswith t ''-'';
          b = (if startswith t ''-'' \<or> startswith t ''+'' then tl t else t)
      in if digits_ok b
         then Inr ((if neg then - 1 else 1) * int (digits_val (filter (\<lambda>c. c \<noteq> CHR ''_'') b)))
         else Inl (ValueError ''invalid literal for int()''))"

fun py_int :: "json \<Rightarrow> exn + int" where
  "py_int (JInt n) = Inr n"
| "py_int (JBool b) = Inr (if b then 1 else 0)"
| "py_int (JStr s) = int_of_str s"
| "py_int v = Inl TypeError"

text \<open>
  \<open>next(int(opt['id']) for opt in preguntas if opt['texto'] == label)\<close>: the
  generator runs over the exam's list of questions.
\<close>

fun next_opcion :: "json list \<Rightarrow> string \<Rightarrow> exn + int" where
  "next_opcion [] label = Inl StopIteration"
| "next_opcion (opt # rest) label =
     (case getitem opt ''texto'' of
        Inl e \<Rightarrow> Inl e
      | Inr t \<Rightarrow>
          if t = JStr label then
            (case getitem opt ''id'' of Inl e \<Rightarrow> Inl e | Inr i \<Rightarrow> py_int i)
          else next_opcion rest label)"

text \<open>The dict \<open>payload\<close>; \<open>respuestasTexto\<close> is \<open>None\<close> while the key is absent.\<close>

record payload =
  examenId :: int
  opcionesSeleccionadas :: "int list"
  respuestasTexto :: "(int \<times> string) option"

fun procesar_respuestas :: "json list \<Rightarrow> respuestas \<Rightarrow> payload \<Rightarrow> exn + payload" where
  "procesar_respuestas preguntas [] p = Inr p"
| "procesar_respuestas preguntas ((pregunta_id, r) # rest) p =
     (if tipo r = ''SELECCION_UNICA'' then
        (case next_opcion preguntas (contenido r) of
           Inl e \<Rightarrow> Inl e
         | Inr opcion_id \<Rightarrow>
             procesar_respuestas preguntas rest
               (p\<lparr>opcionesSeleccionadas := opcionesSeleccionadas p @ [opcion_id]\<rparr>))
      else if tipo r = ''TEXTO_ABIERTO'' then
        (case py_int pregunta_id of
           Inl e \<Rightarrow> Inl e
         | Inr n \<Rightarrow>
             procesar_respuestas preguntas rest (p\<lparr>respuestasTexto := Some (n, contenido r)\<rparr>))
      else procesar_respuestas preguntas rest p)"

definition armar_payload :: "int \<Rightarrow> json list \<Rightarrow> respuestas \<Rightarrow> exn + payload" where
  "armar_payload examen_id preguntas rs =
     procesar_respuestas preguntas rs
       \<lparr>examenId = examen_id, opcionesSeleccionadas = [], respuestasTexto = None\<rparr>"

definition payload_json :: "payload \<Rightarrow> json" where
  "payload_json p =
     JObj ([(''examenId'', JInt (examenId p)),
            (''opcionesSeleccionadas'', JList (map JInt (opcionesSeleccionadas p)))] @
           (case respuestasTexto p of
              None \<Rightarrow> []
            | Some (n, t) \<Rightarrow>
                [(''respuestasTexto'', JObj [(''preguntaId'', JInt n), (''respuesta'', JStr t)])]))"

text \<open>The handler of the button \<open>Enviar examen\<close>.\<close>

definition enviar_examen ::
    "env \<Rightarrow> int \<Rightarrow> json list \<Rightarrow> respuestas \<Rightarrow> world \<Rightarrow> salida \<times> world" where
  "enviar_examen E examen_id preguntas rs w =
     (case armar_payload examen_id preguntas rs of
        Inl e \<Rightarrow> (Termina, st [ErrEnvio e] w)
      | Inr p \<Rightarrow>
          (let rq = \<lparr>rq_method = ''POST'',
                     rq_url = API_BASE_URL E @ ''/'' @ ENDPOINTS E ''results'',
                     rq_headers = get_headers E, rq_json = payload_json p, rq_params = JNull\<rparr>;
               w1 = w\<lparr>calls := calls w @ [rq]\<rparr>
           in case network E (calls w) rq of
                Raises e \<Rightarrow> (Termina, st [ErrEnvio e] w1)
              | Returns r \<Rightarrow>
                  if status_code r = 201 then (Rerun, st [OkEnvio] w1)
                  else (Termina, st [ErrEnvioCodigo (status_code r) (body_text r)] w1)))"

text \<open>
  One run of the exam page once the questions are fetched (lines under
  \<open>if preguntas and isinstance(preguntas, list)\<close>): the questions are drawn and
  the answers stored; then, if the button is pressed, the exam is submitted. An
  exception of the drawing loop leaves the page before the button is reached.
\<close>

definition pagina_examen ::
    "env \<Rightarrow> int \<Rightarrow> json \<Rightarrow> (json \<Rightarrow> string) \<Rightarrow> bool \<Rightarrow> respuestas \<Rightarrow> world
      \<Rightarrow> salida \<times> respuestas \<times> world" where
  "pagina_examen E examen_id preguntas text_area boton rs w =
     (case preguntas of
        JList ps \<Rightarrow>
          if ps = [] then (Termina, rs, w)
          else
            (case mostrar_preguntas text_area ps rs of
               (Some e, rs1) \<Rightarrow> (Propaga e, rs1, w)
             | (None, rs1) \<Rightarrow>
                 if boton
                 then (case enviar_examen E examen_id ps rs1 w of (s, w1) \<Rightarrow> (s, rs1, w1))
                 else (Termina, rs1, w))
      | _ \<Rightarrow> (Termina, rs, w))"

section \<open>Notions used in the statements\<close>

text \<open>The trimmed text is bracket-delimited: \<open>[...]\<close> or \<open>{...}\<close>.\<close>

definition delimitado :: "string \<Rightarrow> bool" where
  "delimitado t =
     ((startswith t ''['' \<and> endswith t '']'') \<or> (startswith t ''{'' \<and> endswith t ''}''))"

text \<open>The request that \<open>make_request\<close> issues with the bearer header and no query.\<close>

definition peticion :: "env \<Rightarrow> string \<Rightarrow> string \<Rightarrow> json \<Rightarrow> request" where
  "peticion E m ep d =
     \<lparr>rq_method = m, rq_url = build_url E ep, rq_headers = get_headers E,
      rq_json = d, rq_params = JNull\<rparr>"

text \<open>
  The active-window rule in the words of the specification: today lies within
  \<open>[start, end]\<close> and the list of question ids is not empty.
\<close>

definition is_active :: "examen \<Rightarrow> date \<Rightarrow> bool" where
  "is_active e today =
     (date_le (ex_fechaInicio e) today \<and> date_le today (ex_fechaFin e)
      \<and> (case ex_preguntasIds e of JList ids \<Rightarrow> ids \<noteq> [] | _ \<Rightarrow> False))"

text \<open>The requests that creating an exam and one of its questions issue.\<close>

definition examen_dto :: "string \<Rightarrow> string \<Rightarrow> date \<Rightarrow> date \<Rightarrow> ExamenRequestDTO" where
  "examen_dto t d fi ff =
     \<lparr>titulo = t, descripcion = d, fechaInicio = fi, fechaFin = ff, creadorId = 1,
      preguntasIds = []\<rparr>"

definition peticion_examen :: "env \<Rightarrow> string \<Rightarrow> string \<Rightarrow> date \<Rightarrow> date \<Rightarrow> request" where
  "peticion_examen E t d fi ff =
     peticion E ''POST'' (ENDPOINTS E ''examenes'') (to_dict (examen_dto t d fi ff))"

definition peticion_pregunta :: "env \<Rightarrow> json \<Rightarrow> pregunta \<Rightarrow> request" where
  "peticion_pregunta E examen_id p =
     peticion E ''POST'' (ENDPOINTS E ''preguntas'') (pregunta_payload examen_id p)"

text \<open>What \<open>make_request\<close> returns for the request that creates the exam.\<close>

definition respuesta_examen :: "env \<Rightarrow> string \<Rightarrow> string \<Rightarrow> date \<Rightarrow> date \<Rightarrow> world \<Rightarrow> exn + json" where
  "respuesta_examen E t d fi ff w =
     fst (handle_outcome (loads E) (build_url E (ENDPOINTS E ''examenes''))
            (network E (calls w) (peticion_examen E t d fi ff)))"

text \<open>
  Whether the backend, after the calls \<open>hist\<close>, answers the request with
  something \<open>make_request\<close> returns as a truthy value; and the same for a
  sequence of requests issued one after the other.
\<close>

definition aceptada :: "env \<Rightarrow> request list \<Rightarrow> request \<Rightarrow> bool" where
  "aceptada E hist rq =
     (case fst (handle_outcome (loads E) (rq_url rq) (network E hist rq)) of
        Inr v \<Rightarrow> truthy v
      | Inl e \<Rightarrow> False)"

fun resultados :: "env \<Rightarrow> request list \<Rightarrow> request list \<Rightarrow> bool list" where
  "resultados E hist [] = []"
| "resultados E hist (rq # rqs) = aceptada E hist rq # resultados E (hist @ [rq]) rqs"

text \<open>The messages that report the fate of one question.\<close>

fun informe :: "msg \<Rightarrow> bool option" where
  "informe (OkPregunta t) = Some True"
| "informe (ErrPregunta t) = Some False"
| "informe (ErrInesperado e) = Some False"
| "informe m = None"

text \<open>The open-text answers of a session, in the order the loop meets them.\<close>

definition abiertas :: "respuestas \<Rightarrow> respuestas" where
  "abiertas rs = filter (\<lambda>kv. tipo (snd kv) = ''TEXTO_ABIERTO'') rs"

text \<open>A field of a JSON object, if present.\<close>

fun campo :: "json \<Rightarrow> string \<Rightarrow> json option" where
  "campo (JObj kvs) k = map_of kvs k"
| "campo v k = None"

text \<open>The request that submits a payload to the results endpoint.\<close>

definition peticion_resultados :: "env \<Rightarrow> payload \<Rightarrow> request" where
  "peticion_resultados E p =
     \<lparr>rq_method = ''POST'', rq_url = API_BASE_URL E @ ''/'' @ ENDPOINTS E ''results'',
      rq_headers = get_headers E, rq_json = payload_json p, rq_params = JNull\<rparr>"

text \<open>
  A well-formed open-text question with the integer id \<open>n\<close>, and the session after
  the text areas of the questions with ids \<open>ns\<close> are read in turn.
\<close>

definition abierta :: "json \<Rightarrow> int \<Rightarrow> bool" where
  "abierta q n =
     (getitem q ''id'' = Inr (JInt n)
      \<and> (case getitem q ''textoPregunta'' of Inr t \<Rightarrow> True | Inl e \<Rightarrow> False)
      \<and> py_get q ''tipo'' = Inr (JStr ''TEXTO_ABIERTO''))"

fun anotar :: "(json \<Rightarrow> string) \<Rightarrow> int list \<Rightarrow> respuestas \<Rightarrow> respuestas" where
  "anotar ta [] rs = rs"
| "anotar ta (n # ns) rs =
     anotar ta ns
       (if ta (JInt n) = [] then rs
        else AList.update (JInt n) \<lparr>tipo = ''TEXTO_ABIERTO'', contenido = ta (JInt n)\<rparr> rs)"

subsection \<open>Sample surroundings for concrete runs\<close>

definition respuesta_json :: "int \<Rightarrow> string \<Rightarrow> outcome" where
  "respuesta_json code body =
     Returns \<lparr>status_code = code, content_type = Some ''application/json'', body_text = body\<rparr>"

definition entorno :: "(request list \<Rightarrow> request \<Rightarrow> outcome) \<Rightarrow> env" where
  "entorno net =
     \<lparr>loads = json_loads, build_url = (\<lambda>p. ''http://localhost:5000/'' @ p),
      ENDPOINTS = (\<lambda>k. k), API_BASE_URL = ''http://localhost:5000'', TOKEN = ''secreto'',
      network = net\<rparr>"

text \<open>
  A backend that creates the exam with id 7 and refuses the question whose text is
  \<open>q2\<close>.
\<close>

definition servidor_demo :: "request list \<Rightarrow> request \<Rightarrow> outcome" where
  "servidor_demo hist rq =
     (if rq_url rq = ''http://localhost:5000/examenes''
      then respuesta_json 201 ''{\"id\": 7}''
      else if py_get (rq_json rq) ''textoPregunta'' = Inr (JStr ''q2'')
      then respuesta_json 400 ''{\"error\": \"bad\"}''
      else respuesta_json 201 ''{\"id\": 1}'')"

definition pregunta_demo :: "string \<Rightarrow> pregunta" where
  "pregunta_demo t =
     \<lparr>textoPregunta = t, tipoPregunta = ''TEXTO_ABIERTO'', opciones = [], puntos = 1\<rparr>"

definition dia :: "nat \<Rightarrow> date" where
  "dia n = \<lparr>year = 2024, month = 5, day = n\<rparr>"

text \<open>Questions as the backend lists them.\<close>

definition pregunta_abierta :: "int \<Rightarrow> string \<Rightarrow> json" where
  "pregunta_abierta n t =
     JObj [(''id'', JInt n), (''textoPregunta'', JStr t), (''tipo'', JStr ''TEXTO_ABIERTO''),
           (''opciones'', JList [])]"

definition pregunta_capital :: json where
  "pregunta_capital =
     JObj [(''id'', JInt 7), (''textoPregunta'', JStr ''Capital?''),
           (''tipo'', JStr ''SELECCION_UNICA''),
           (''opciones'',
            JList [JObj [(''id'', JInt 70), (''textoPregunta'', JStr ''A'')],
                   JObj [(''id'', JInt 71), (''textoPregunta'', JStr ''B'')]])]"

definition inicio :: world where
  "inicio = \<lparr>calls = [], ui = []\<rparr>"

section \<open>The API client: results\<close>

lemma make_request_eq:
  "make_request E m ep h d ps w =
     (fst (handle_outcome (loads E) (build_url E ep)
             (network E (calls w)
                \<lparr>rq_method = m, rq_url = build_url E ep, rq_headers = h, rq_json = d,
                 rq_params = ps\<rparr>)),
      \<lparr>calls = calls w @ [\<lparr>rq_method = m, rq_url = build_url E ep, rq_headers = h,
                              rq_json = d, rq_params = ps\<rparr>],
       ui = ui w @ snd (handle_outcome (loads E) (build_url E ep)
             (network E (calls w)
                \<lparr>rq_method = m, rq_url = build_url E ep, rq_headers = h, rq_json = d,
                 rq_params = ps\<rparr>))\<rparr>)"
  by (simp add: make_request_def st_def Let_def split: prod.splits)

text \<open>
  Claim C7. When the backend answers a request with a 2xx status, a content type
  containing \<open>application/json\<close> (in any letter case) and an empty body,
  \<open>make_request\<close> returns the empty list and shows no message. A decode failure
  returns \<open>None\<close> instead, so the two can be told apart.
\<close>

theorem empty_body_is_empty_list:
  assumes "200 \<le> status_code r" and "status_code r < 300"
    and "content_type r = Some c" and "contains (lower c) ''application/json''"
    and "body_text r = []"
    and "network E (calls w)
           \<lparr>rq_method = m, rq_url = build_url E ep, rq_headers = h, rq_json = d,
            rq_params = ps\<rparr> = Returns r"
  shows "make_request E m ep h d ps w =
           (Inr (JList []),
            \<lparr>calls = calls w @ [\<lparr>rq_method = m, rq_url = build_url E ep,
                                    rq_headers = h, rq_json = d, rq_params = ps\<rparr>],
             ui = ui w\<rparr>)"
proof -
  have "handle_outcome (loads E) (build_url E ep) (Returns r) = (Inr (JList []), [])"
    using assms(1-5) by (simp add: handle_outcome_def raise_for_status_def)
  with assms(6) show ?thesis
    by (simp add: make_request_eq)
qed

theorem empty_body_is_empty_list_witness:
  "make_request (entorno (\<lambda>hist rq. respuesta_json 200 [])) ''GET'' ''examenes'' []
       JNull JNull inicio =
     (Inr (JList []),
      \<lparr>calls = [\<lparr>rq_method = ''GET'', rq_url = ''http://localhost:5000/examenes'',
                  rq_headers = [], rq_json = JNull, rq_params = JNull\<rparr>],
       ui = []\<rparr>)"
proof -
  let ?r = "\<lparr>status_code = 200, content_type = Some ''application/json'', body_text = []\<rparr>"
  have h1: "200 \<le> status_code ?r" by simp
  have h2: "status_code ?r < 300" by simp
  have h3: "content_type ?r = Some ''application/json''" by simp
  have h4: "contains (lower ''application/json'') ''application/json''" by code_simp
  have h5: "body_text ?r = []" by simp
  have h6: "network (entorno (\<lambda>hist rq. respuesta_json 200 [])) (calls inicio)
              \<lparr>rq_method = ''GET'',
               rq_url = build_url (entorno (\<lambda>hist rq. respuesta_json 200 [])) ''examenes'',
               rq_headers = [], rq_json = JNull, rq_params = JNull\<rparr> = Returns ?r"
    by (simp add: entorno_def respuesta_json_def)
  from empty_body_is_empty_list [OF h1 h2 h3 h4 h5 h6]
  show ?thesis
    by (simp add: entorno_def inicio_def)
qed

lemma decode_json_strict:
  "ld text = Inr v \<Longrightarrow> decode_json ld md text 0 = Inr v"
  by (simp add: decode_json_def)

lemma decode_json_retry:
  "ld text = Inl JSONDecodeError \<Longrightarrow>
     decode_json ld md text 0 =
       (if delimitado (strip text) then ld (strip text) else Inl JSONDecodeError)"
  by (simp add: decode_json_def delimitado_def Let_def)

lemma handle_outcome_json:
  assumes "200 \<le> status_code r" and "status_code r < 300"
    and "content_type r = Some c" and "contains (lower c) ''application/json''"
    and "body_text r \<noteq> []"
  shows "handle_outcome ld u (Returns r) =
           (case decode_json ld 100 (body_text r) 0 of
              Inr v \<Rightarrow> (Inr v, [])
            | Inl e \<Rightarrow>
                if is_ValueError e
                then (Inr JNull,
                      [ErrProcesar e, ErrDatos (take 500 (body_text r)), ErrTipoContenido c,
                       ErrUrl u])
                else (Inl e, []))"
  using assms by (simp add: handle_outcome_def raise_for_status_def)

text \<open>
  Claim C8. When strict decoding of a non-empty body fails, the text is trimmed once; if
  the trimmed text is delimited by \<open>[ ]\<close> or by \<open>{ }\<close>, strict decoding is
  retried on it and its result is the result; if the trimmed text is not so delimited,
  or the retry fails as well, the client reports a decode error and returns
  \<open>None\<close>. The body \<open>"  [1,2,3]  "\<close> decodes to \<open>[1,2,3]\<close> and the body
  \<open>"not json"\<close> gives the decode error.
\<close>

theorem decode_recovers_once:
  "(ld text = Inl JSONDecodeError \<longrightarrow>
      decode_json ld 100 text 0 =
        (if delimitado (strip text) then ld (strip text) else Inl JSONDecodeError))
   \<and> (200 \<le> status_code r \<and> status_code r < 300 \<and> content_type r = Some c
        \<and> contains (lower c) ''application/json'' \<and> body_text r \<noteq> []
        \<and> ld (body_text r) = Inl JSONDecodeError
        \<and> delimitado (strip (body_text r)) \<and> ld (strip (body_text r)) = Inr v \<longrightarrow>
      handle_outcome ld u (Returns r) = (Inr v, []))
   \<and> (200 \<le> status_code r \<and> status_code r < 300 \<and> content_type r = Some c
        \<and> contains (lower c) ''application/json'' \<and> body_text r \<noteq> []
        \<and> ld (body_text r) = Inl JSONDecodeError
        \<and> (\<not> delimitado (strip (body_text r)) \<or> ld (strip (body_text r)) = Inl JSONDecodeError)
      \<longrightarrow>
      handle_outcome ld u (Returns r) =
        (Inr JNull,
         [ErrProcesar JSONDecodeError, ErrDatos (take 500 (body_text r)), ErrTipoContenido c,
          ErrUrl u]))
   \<and> handle_outcome json_loads u (respuesta_json 200 ''  [1,2,3]  '') =
        (Inr (JList [JInt 1, JInt 2, JInt 3]), [])
   \<and> handle_outcome json_loads u (respuesta_json 200 ''not json'') =
        (Inr JNull,
         [ErrProcesar JSONDecodeError, ErrDatos ''not json'',
          ErrTipoContenido ''application/json'', ErrUrl u])"
proof (intro conjI impI)
  assume "ld text = Inl JSONDecodeError"
  then show "decode_json ld 100 text 0 =
        (if delimitado (strip text) then ld (strip text) else Inl JSONDecodeError)"
    by (rule decode_json_retry)
next
  assume a: "200 \<le> status_code r \<and> status_code r < 300 \<and> content_type r = Some c
        \<and> contains (lower c) ''application/json'' \<and> body_text r \<noteq> []
        \<and> ld (body_text r) = Inl JSONDecodeError
        \<and> delimitado (strip (body_text r)) \<and> ld (strip (body_text r)) = Inr v"
  then have "decode_json ld 100 (body_text r) 0 = Inr v"
    by (simp add: decode_json_retry)
  with a show "handle_outcome ld u (Returns r) = (Inr v, [])"
    by (simp add: handle_outcome_json)
next
  assume a: "200 \<le> status_code r \<and> status_code r < 300 \<and> content_type r = Some c
        \<and> contains (lower c) ''application/json'' \<and> body_text r \<noteq> []
        \<and> ld (body_text r) = Inl JSONDecodeError
        \<and> (\<not> delimitado (strip (body_text r)) \<or> ld (strip (body_text r)) = Inl JSONDecodeError)"
  then have "decode_json ld 100 (body_text r) 0 = Inl JSONDecodeError"
    by (auto simp: decode_json_retry)
  with a show "handle_outcome ld u (Returns r) =
        (Inr JNull,
         [ErrProcesar JSONDecodeError, ErrDatos (take 500 (body_text r)), ErrTipoContenido c,
          ErrUrl u])"
    by (simp add: handle_outcome_json)
next
  show "handle_outcome json_loads u (respuesta_json 200 ''  [1,2,3]  '') =
        (Inr (JList [JInt 1, JInt 2, JInt 3]), [])"
    by code_simp
next
  show "handle_outcome json_loads u (respuesta_json 200 ''not json'') =
        (Inr JNull,
         [ErrProcesar JSONDecodeError, ErrDatos ''not json'',
          ErrTipoContenido ''application/json'', ErrUrl u])"
    by code_simp
qed

theorem decode_recovers_once_witness:
  "decode_json json_loads 100 (CHR 0x0C # ''[1,2,3]'' @ [CHR 0x0C]) 0 =
       Inr (JList [JInt 1, JInt 2, JInt 3])
   \<and> handle_outcome json_loads ''u'' (respuesta_json 200 (CHR 0x0C # ''[1,2,3]'' @ [CHR 0x0C])) =
       (Inr (JList [JInt 1, JInt 2, JInt 3]), [])
   \<and> handle_outcome json_loads ''u'' (respuesta_json 200 (CHR 0x0C # ''[1,2,'' @ [CHR 0x0C])) =
       (Inr JNull,
        [ErrProcesar JSONDecodeError, ErrDatos (CHR 0x0C # ''[1,2,'' @ [CHR 0x0C]),
         ErrTipoContenido ''application/json'', ErrUrl ''u''])"
proof -
  let ?t = "CHR 0x0C # ''[1,2,3]'' @ [CHR 0x0C]"
  let ?b = "CHR 0x0C # ''[1,2,'' @ [CHR 0x0C]"
  let ?r = "\<lambda>t. \<lparr>status_code = 200, content_type = Some ''application/json'', body_text = t\<rparr>"
  let ?v = "JList [JInt 1, JInt 2, JInt 3]"
  have s1: "json_loads ?t = Inl JSONDecodeError" by code_simp
  have s2: "delimitado (strip ?t)" by code_simp
  have s3: "json_loads (strip ?t) = Inr ?v" by code_simp
  have c: "contains (lower ''application/json'') ''application/json''" by code_simp
  have b1: "json_loads ?b = Inl JSONDecodeError" by code_simp
  have b2: "\<not> delimitado (strip ?b)" by code_simp
  note T = decode_recovers_once
  have "decode_json json_loads 100 ?t 0 = Inr ?v"
    using T [of json_loads ?t, THEN conjunct1] s1 s2 s3 by simp
  moreover have "handle_outcome json_loads ''u'' (Returns (?r ?t)) = (Inr ?v, [])"
    using T [of json_loads ?t "?r ?t" "''application/json''" ?v "''u''",
             THEN conjunct2, THEN conjunct1] s1 s2 s3 c
    by simp
  moreover have "handle_outcome json_loads ''u'' (Returns (?r ?b)) =
       (Inr JNull,
        [ErrProcesar JSONDecodeError, ErrDatos ?b,
         ErrTipoContenido ''application/json'', ErrUrl ''u''])"
    using T [of json_loads ?b "?r ?b" "''application/json''" ?v "''u''",
             THEN conjunct2, THEN conjunct2, THEN conjunct1] b1 b2 c
    by simp
  ultimately show ?thesis
    by (simp add: respuesta_json_def)
qed

text \<open>
  Claim C2. The bound on nesting depth is not in force: \<open>decode_json\<close> is only
  ever called with \<open>depth = 0\<close> and never calls itself, so the test
  \<open>depth > max_depth\<close> cannot succeed. A body of 101 nested arrays is decoded and
  returned, with no message.
\<close>

theorem depth_bound_not_enforced:
  "handle_outcome json_loads u
     (respuesta_json 200 (replicate 101 (CHR ''['') @ replicate 101 (CHR '']''))) =
     (Inr (((\<lambda>v. JList [v]) ^^ 100) (JList [])), [])"
  by code_simp

text \<open>
  Claim C6, as stated, fails: a response with status 404 is reported by the handler for
  connection errors, and no message carries a snippet of the response body. A status
  outside 2xx that \<open>raise_for_status\<close> lets pass, such as 300, is not an error at
  all: its JSON body is decoded and returned.
\<close>

theorem http_error_has_no_body_snippet:
  "handle_outcome json_loads ''http://localhost:5000/examenes''
      (Returns \<lparr>status_code = 404, content_type = Some ''text/html'', body_text = ''Not Found''\<rparr>) =
     (Inr JNull,
      [ErrConexion (HTTPError 404 ''http://localhost:5000/examenes''),
       ErrUrl ''http://localhost:5000/examenes''])
   \<and> ErrDatos (take 500 ''Not Found'') \<notin> set (snd (handle_outcome json_loads
        ''http://localhost:5000/examenes''
        (Returns \<lparr>status_code = 404, content_type = Some ''text/html'', body_text = ''Not Found''\<rparr>)))
   \<and> handle_outcome json_loads ''http://localhost:5000/examenes'' (respuesta_json 300 ''[1]'') =
     (Inr (JList [JInt 1]), [])"
proof -
  have "handle_outcome json_loads ''http://localhost:5000/examenes'' (respuesta_json 300 ''[1]'') =
     (Inr (JList [JInt 1]), [])"
    by code_simp
  then show ?thesis
    by (simp add: handle_outcome_def raise_for_status_def except_RequestException_def)
qed

text \<open>
  Claim C6, amended. A network-level failure (a \<open>RequestException\<close> raised by the
  call) and a response with a status from 400 to 599 take the same handler:
  \<open>make_request\<close> returns \<open>None\<close>, no exception leaves it, and it shows the
  connection-error message with the exception (for a status error, the status and the
  URL) followed by the URL.
\<close>

theorem request_failures_are_reported:
  "(is_RequestException e
      \<and> network E (calls w) \<lparr>rq_method = m, rq_url = build_url E ep, rq_headers = h,
                              rq_json = d, rq_params = ps\<rparr> = Raises e \<longrightarrow>
      make_request E m ep h d ps w =
        (Inr JNull,
         \<lparr>calls = calls w @ [\<lparr>rq_method = m, rq_url = build_url E ep, rq_headers = h,
                                 rq_json = d, rq_params = ps\<rparr>],
          ui = ui w @ [ErrConexion e, ErrUrl (build_url E ep)]\<rparr>))
   \<and> (400 \<le> status_code r \<and> status_code r < 600
      \<and> network E (calls w) \<lparr>rq_method = m, rq_url = build_url E ep, rq_headers = h,
                              rq_json = d, rq_params = ps\<rparr> = Returns r \<longrightarrow>
      make_request E m ep h d ps w =
        (Inr JNull,
         \<lparr>calls = calls w @ [\<lparr>rq_method = m, rq_url = build_url E ep, rq_headers = h,
                                 rq_json = d, rq_params = ps\<rparr>],
          ui = ui w @ [ErrConexion (HTTPError (status_code r) (build_url E ep)),
                       ErrUrl (build_url E ep)]\<rparr>))"
  by (simp add: make_request_eq handle_outcome_def raise_for_status_def
      except_RequestException_def)

theorem request_failures_are_reported_witness:
  "make_request (entorno (\<lambda>hist rq. Raises (ConnectionError ''refused''))) ''GET''
       ''examenes'' [] JNull JNull inicio =
     (Inr JNull,
      \<lparr>calls = [\<lparr>rq_method = ''GET'', rq_url = ''http://localhost:5000/examenes'',
                  rq_headers = [], rq_json = JNull, rq_params = JNull\<rparr>],
       ui = [ErrConexion (ConnectionError ''refused''),
             ErrUrl ''http://localhost:5000/examenes'']\<rparr>)
   \<and> make_request (entorno (\<lambda>hist rq. respuesta_json 500 ''{\"error\": 1}'')) ''GET''
       ''examenes'' [] JNull JNull inicio =
     (Inr JNull,
      \<lparr>calls = [\<lparr>rq_method = ''GET'', rq_url = ''http://localhost:5000/examenes'',
                  rq_headers = [], rq_json = JNull, rq_params = JNull\<rparr>],
       ui = [ErrConexion (HTTPError 500 ''http://localhost:5000/examenes''),
             ErrUrl ''http://localhost:5000/examenes'']\<rparr>)"
proof -
  let ?E1 = "entorno (\<lambda>hist rq. Raises (ConnectionError ''refused''))"
  let ?E2 = "entorno (\<lambda>hist rq. respuesta_json 500 ''{\"error\": 1}'')"
  let ?r = "\<lparr>status_code = 500, content_type = Some ''application/json'',
             body_text = ''{\"error\": 1}''\<rparr>"
  note T = request_failures_are_reported
  have "make_request ?E1 ''GET'' ''examenes'' [] JNull JNull inicio =
     (Inr JNull,
      \<lparr>calls = [\<lparr>rq_method = ''GET'', rq_url = ''http://localhost:5000/examenes'',
                  rq_headers = [], rq_json = JNull, rq_params = JNull\<rparr>],
       ui = [ErrConexion (ConnectionError ''refused''),
             ErrUrl ''http://localhost:5000/examenes'']\<rparr>)"
    using T [of "ConnectionError ''refused''" ?E1 inicio "''GET''" "''examenes''" "[]" JNull JNull,
             THEN conjunct1]
    by (simp add: entorno_def inicio_def)
  moreover have "make_request ?E2 ''GET'' ''examenes'' [] JNull JNull inicio =
     (Inr JNull,
      \<lparr>calls = [\<lparr>rq_method = ''GET'', rq_url = ''http://localhost:5000/examenes'',
                  rq_headers = [], rq_json = JNull, rq_params = JNull\<rparr>],
       ui = [ErrConexion (HTTPError 500 ''http://localhost:5000/examenes''),
             ErrUrl ''http://localhost:5000/examenes'']\<rparr>)"
    using T [of _ ?E2 inicio "''GET''" "''examenes''" "[]" JNull JNull ?r, THEN conjunct2]
    by (simp add: entorno_def inicio_def respuesta_json_def)
  ultimately show ?thesis by simp
qed

section \<open>Active exams: results\<close>

lemma date_le_refl: "date_le d d"
  by (simp add: date_le_def)

lemma date_le_iff_not_lt: "date_le b a = (\<not> date_lt a b)"
  by (auto simp: date_le_def date_lt_def)

lemma lista_no_vacia_iff: "lista_no_vacia v = (\<exists>ids. v = JList ids \<and> ids \<noteq> [])"
  by (cases v) auto

text \<open>
  Claim C3. The exams offered to a student are exactly the rows for which
  \<open>is_active\<close> holds, in their original order: start \<open>\<le>\<close> today
  \<open>\<le>\<close> end, and the question ids form a non-empty list. Both boundary dates are
  inclusive, since a date is \<open>\<le>\<close> itself.
\<close>

theorem active_exams_filter:
  "examenes_activos hoy df = filter (\<lambda>e. is_active e hoy) df
   \<and> (e \<in> set (examenes_activos hoy df)) =
       (e \<in> set df \<and> date_le (ex_fechaInicio e) hoy \<and> date_le hoy (ex_fechaFin e)
        \<and> (\<exists>ids. ex_preguntasIds e = JList ids \<and> ids \<noteq> []))
   \<and> date_le hoy hoy"
proof -
  have a: "lista_no_vacia v = (case v of JList ids \<Rightarrow> ids \<noteq> [] | _ \<Rightarrow> False)" for v
    by (cases v) auto
  have "examenes_activos hoy df = filter (\<lambda>e. is_active e hoy) df"
    unfolding examenes_activos_def is_active_def filter_filter a
    by (rule filter_cong) auto
  moreover have "(e \<in> set (examenes_activos hoy df)) =
       (e \<in> set df \<and> date_le (ex_fechaInicio e) hoy \<and> date_le hoy (ex_fechaFin e)
        \<and> (\<exists>ids. ex_preguntasIds e = JList ids \<and> ids \<noteq> []))"
    by (auto simp: examenes_activos_def lista_no_vacia_iff)
  ultimately show ?thesis
    by (simp add: date_le_refl)
qed

theorem active_exams_filter_witness:
  "examenes_activos \<lparr>year = 2024, month = 5, day = 10\<rparr>
     [\<lparr>ex_id = 1, ex_titulo = ''empieza hoy'',
       ex_fechaInicio = \<lparr>year = 2024, month = 5, day = 10\<rparr>,
       ex_fechaFin = \<lparr>year = 2024, month = 6, day = 1\<rparr>,
       ex_preguntasIds = JList [JInt 4]\<rparr>,
      \<lparr>ex_id = 2, ex_titulo = ''termino ayer'',
       ex_fechaInicio = \<lparr>year = 2024, month = 4, day = 1\<rparr>,
       ex_fechaFin = \<lparr>year = 2024, month = 5, day = 9\<rparr>,
       ex_preguntasIds = JList [JInt 5]\<rparr>,
      \<lparr>ex_id = 3, ex_titulo = ''sin preguntas'',
       ex_fechaInicio = \<lparr>year = 2024, month = 5, day = 1\<rparr>,
       ex_fechaFin = \<lparr>year = 2024, month = 5, day = 31\<rparr>,
       ex_preguntasIds = JList []\<rparr>,
      \<lparr>ex_id = 4, ex_titulo = ''termina hoy'',
       ex_fechaInicio = \<lparr>year = 2023, month = 12, day = 31\<rparr>,
       ex_fechaFin = \<lparr>year = 2024, month = 5, day = 10\<rparr>,
       ex_preguntasIds = JList [JInt 6, JInt 7]\<rparr>,
      \<lparr>ex_id = 5, ex_titulo = ''empieza manana'',
       ex_fechaInicio = \<lparr>year = 2024, month = 5, day = 11\<rparr>,
       ex_fechaFin = \<lparr>year = 2024, month = 5, day = 20\<rparr>,
       ex_preguntasIds = JList [JInt 8]\<rparr>] =
     [\<lparr>ex_id = 1, ex_titulo = ''empieza hoy'',
       ex_fechaInicio = \<lparr>year = 2024, month = 5, day = 10\<rparr>,
       ex_fechaFin = \<lparr>year = 2024, month = 6, day = 1\<rparr>,
       ex_preguntasIds = JList [JInt 4]\<rparr>,
      \<lparr>ex_id = 4, ex_titulo = ''termina hoy'',
       ex_fechaInicio = \<lparr>year = 2023, month = 12, day = 31\<rparr>,
       ex_fechaFin = \<lparr>year = 2024, month = 5, day = 10\<rparr>,
       ex_preguntasIds = JList [JInt 6, JInt 7]\<rparr>]"
  by (simp add: active_exams_filter [THEN conjunct1] is_active_def date_le_def date_lt_def)

section \<open>Creating an exam: results\<close>

lemma handle_outcome_informe:
  "List.map_filter informe (snd (handle_outcome ld u oc)) = []"
  by (auto simp: handle_outcome_def except_RequestException_def List.map_filter_simps Let_def
      split: outcome.splits option.splits sum.splits)

lemma st_calls [simp]: "calls (st ms w) = calls w"
  by (simp add: st_def)

lemma st_ui [simp]: "ui (st ms w) = ui w @ ms"
  by (simp add: st_def)

lemma make_request_calls:
  "calls (snd (make_request E m ep h d ps w)) =
     calls w @ [\<lparr>rq_method = m, rq_url = build_url E ep, rq_headers = h, rq_json = d,
                 rq_params = ps\<rparr>]"
  by (simp add: make_request_eq)

lemma map_filter_append: "List.map_filter f (xs @ ys) = List.map_filter f xs @ List.map_filter f ys"
  by (simp add: List.map_filter_def)

lemma enviar_preguntas_calls:
  "calls (enviar_preguntas E eid qs w) = calls w @ map (peticion_pregunta E eid) qs"
proof (induction qs arbitrary: w)
  case Nil
  show ?case by simp
next
  case (Cons q qs)
  show ?case
    by (simp add: Cons.IH make_request_eq peticion_pregunta_def peticion_def
        split: prod.splits sum.splits)
qed

lemma enviar_preguntas_informes:
  "List.map_filter informe (ui (enviar_preguntas E eid qs w)) =
     List.map_filter informe (ui w) @ resultados E (calls w) (map (peticion_pregunta E eid) qs)"
proof (induction qs arbitrary: w)
  case Nil
  show ?case by simp
next
  case (Cons q qs)
  show ?case
    by (simp add: Cons.IH make_request_eq peticion_pregunta_def peticion_def aceptada_def
        map_filter_append handle_outcome_informe List.map_filter_simps
        split: prod.splits sum.splits)
qed

lemma make_request_examen:
  "make_request E ''POST'' (ENDPOINTS E ''examenes'') (get_headers E)
       (to_dict \<lparr>titulo = t, descripcion = d, fechaInicio = fi, fechaFin = ff,
                 creadorId = 1, preguntasIds = []\<rparr>) JNull w =
     (fst (handle_outcome (loads E) (build_url E (ENDPOINTS E ''examenes''))
             (network E (calls w) (peticion_examen E t d fi ff))),
      \<lparr>calls = calls w @ [peticion_examen E t d fi ff],
       ui = ui w @ snd (handle_outcome (loads E) (build_url E (ENDPOINTS E ''examenes''))
             (network E (calls w) (peticion_examen E t d fi ff)))\<rparr>)"
  by (simp add: make_request_eq peticion_examen_def peticion_def examen_dto_def)

lemma crear_examen_calls:
  "calls (snd (crear_examen E t d fi ff qs w)) =
     (if t = [] \<or> date_le ff fi then calls w
      else case respuesta_examen E t d fi ff w of
             Inr (JObj kvs) \<Rightarrow>
               if kvs = [] then calls w @ [peticion_examen E t d fi ff]
               else calls w @ peticion_examen E t d fi ff #
                      map (peticion_pregunta E (case map_of kvs ''id'' of None \<Rightarrow> JNull | Some i \<Rightarrow> i)) qs
           | _ \<Rightarrow> calls w @ [peticion_examen E t d fi ff])"
  by (simp add: crear_examen_def make_request_examen respuesta_examen_def enviar_preguntas_calls
      split: sum.splits json.splits)

text \<open>
  Claim C5. With an empty title, or with a start date not before the end date
  (\<open>fecha_inicio >= fecha_fin\<close>), \<open>crear_examen\<close> shows the validation
  error and returns without any call to the backend. It issues a call exactly when the
  title is non-empty and start \<open><\<close> end, and the first call is then the POST that
  creates the exam.
\<close>

theorem validation_precedes_network:
  "((t = [] \<or> date_le ff fi) \<longrightarrow>
      crear_examen E t d fi ff qs w =
        (Termina, \<lparr>calls = calls w, ui = ui w @ [if t = [] then ErrTitulo else ErrFechas]\<rparr>))
   \<and> ((calls (snd (crear_examen E t d fi ff qs w)) \<noteq> calls w) = (t \<noteq> [] \<and> date_lt fi ff))
   \<and> (t \<noteq> [] \<and> date_lt fi ff \<longrightarrow>
        take (Suc (length (calls w))) (calls (snd (crear_examen E t d fi ff qs w))) =
          calls w @ [peticion_examen E t d fi ff])"
proof (intro conjI impI)
  assume "t = [] \<or> date_le ff fi"
  then show "crear_examen E t d fi ff qs w =
        (Termina, \<lparr>calls = calls w, ui = ui w @ [if t = [] then ErrTitulo else ErrFechas]\<rparr>)"
    by (auto simp: crear_examen_def st_def)
next
  show "(calls (snd (crear_examen E t d fi ff qs w)) \<noteq> calls w) = (t \<noteq> [] \<and> date_lt fi ff)"
    by (auto simp: crear_examen_calls date_le_iff_not_lt split: sum.splits json.splits)
next
  assume "t \<noteq> [] \<and> date_lt fi ff"
  then show "take (Suc (length (calls w))) (calls (snd (crear_examen E t d fi ff qs w))) =
          calls w @ [peticion_examen E t d fi ff]"
    by (auto simp: crear_examen_calls date_le_iff_not_lt split: sum.splits json.splits)
qed

theorem validation_precedes_network_witness:
  "crear_examen (entorno servidor_demo) [] ''d'' (dia 1) (dia 8) [pregunta_demo ''q1''] inicio =
     (Termina, \<lparr>calls = [], ui = [ErrTitulo]\<rparr>)
   \<and> crear_examen (entorno servidor_demo) ''Parcial'' ''d'' (dia 8) (dia 8)
        [pregunta_demo ''q1''] inicio =
     (Termina, \<lparr>calls = [], ui = [ErrFechas]\<rparr>)
   \<and> map rq_url (take 1 (calls (snd (crear_examen (entorno servidor_demo) ''Parcial'' ''d''
        (dia 1) (dia 8) [pregunta_demo ''q1''] inicio)))) = [''http://localhost:5000/examenes'']"
proof -
  let ?E = "entorno servidor_demo"
  note T = validation_precedes_network
  have a: "crear_examen ?E [] ''d'' (dia 1) (dia 8) [pregunta_demo ''q1''] inicio =
     (Termina, \<lparr>calls = [], ui = [ErrTitulo]\<rparr>)"
    using T [of "[]" "dia 8" "dia 1" ?E "''d''" "[pregunta_demo ''q1'']" inicio, THEN conjunct1]
    by (simp add: inicio_def)
  have le: "date_le (dia 8) (dia 8)" by (simp add: date_le_def dia_def)
  have b: "crear_examen ?E ''Parcial'' ''d'' (dia 8) (dia 8) [pregunta_demo ''q1''] inicio =
     (Termina, \<lparr>calls = [], ui = [ErrFechas]\<rparr>)"
    using T [of "''Parcial''" "dia 8" "dia 8" ?E "''d''" "[pregunta_demo ''q1'']" inicio,
             THEN conjunct1] le
    by (simp add: inicio_def)
  have lt: "date_lt (dia 1) (dia 8)" by (simp add: date_lt_def dia_def)
  have c: "take (Suc (length (calls inicio)))
             (calls (snd (crear_examen ?E ''Parcial'' ''d'' (dia 1) (dia 8)
                [pregunta_demo ''q1''] inicio))) =
           calls inicio @ [peticion_examen ?E ''Parcial'' ''d'' (dia 1) (dia 8)]"
    using T [of "''Parcial''" "dia 8" "dia 1" ?E "''d''" "[pregunta_demo ''q1'']" inicio,
             THEN conjunct2, THEN conjunct2] lt
    by simp
  have d: "map rq_url (calls inicio @ [peticion_examen ?E ''Parcial'' ''d'' (dia 1) (dia 8)]) =
             [''http://localhost:5000/examenes'']"
    by (simp add: inicio_def peticion_examen_def peticion_def entorno_def)
  have e: "Suc (length (calls inicio)) = 1" by (simp add: inicio_def)
  from c d e have "map rq_url (take 1 (calls (snd (crear_examen ?E ''Parcial'' ''d''
        (dia 1) (dia 8) [pregunta_demo ''q1''] inicio)))) = [''http://localhost:5000/examenes'']"
    by simp
  with a b show ?thesis by simp
qed

lemma length_resultados: "length (resultados E hist rqs) = length rqs"
  by (induction rqs arbitrary: hist) simp_all

text \<open>
  Claim C4. For a valid form: if the request that creates the exam does not return a
  truthy value (it fails, or an exception leaves it), that request is the only call and
  no question is reported. If it returns a non-empty object, the handler ends normally
  and the calls are that request followed by one POST per pending question, in input
  order, each tagged with the \<open>id\<close> of the returned object; nothing else is
  called, so nothing is rolled back. The reports shown are one per question, in order,
  and the report of a question is favourable exactly when the backend accepts that
  question's own request.
\<close>

theorem question_creation_is_independent:
  assumes "t \<noteq> []" and "date_lt fi ff"
  shows "((\<forall>v. respuesta_examen E t d fi ff w = Inr v \<longrightarrow> \<not> truthy v) \<longrightarrow>
            calls (snd (crear_examen E t d fi ff qs w)) = calls w @ [peticion_examen E t d fi ff]
            \<and> List.map_filter informe (ui (snd (crear_examen E t d fi ff qs w))) =
                List.map_filter informe (ui w))
       \<and> (respuesta_examen E t d fi ff w = Inr (JObj kvs) \<and> kvs \<noteq> [] \<longrightarrow>
            fst (crear_examen E t d fi ff qs w) = Termina
            \<and> calls (snd (crear_examen E t d fi ff qs w)) =
                calls w @ peticion_examen E t d fi ff #
                  map (peticion_pregunta E (case map_of kvs ''id'' of None \<Rightarrow> JNull | Some i \<Rightarrow> i)) qs
            \<and> List.map_filter informe (ui (snd (crear_examen E t d fi ff qs w))) =
                List.map_filter informe (ui w) @
                resultados E (calls w @ [peticion_examen E t d fi ff])
                  (map (peticion_pregunta E (case map_of kvs ''id'' of None \<Rightarrow> JNull | Some i \<Rightarrow> i)) qs)
            \<and> length (resultados E (calls w @ [peticion_examen E t d fi ff])
                  (map (peticion_pregunta E (case map_of kvs ''id'' of None \<Rightarrow> JNull | Some i \<Rightarrow> i)) qs))
                = length qs)"
proof (intro conjI impI)
  let ?rq = "peticion_examen E t d fi ff"
  let ?u = "build_url E (ENDPOINTS E ''examenes'')"
  let ?ho = "handle_outcome (loads E) ?u (network E (calls w) ?rq)"
  have v: "\<not> date_le ff fi"
    using assms(2) by (simp add: date_le_iff_not_lt)
  have ms: "List.map_filter informe (ui w @ snd ?ho) = List.map_filter informe (ui w)"
    by (simp add: map_filter_append handle_outcome_informe)
  {
    assume f: "\<forall>v. respuesta_examen E t d fi ff w = Inr v \<longrightarrow> \<not> truthy v"
    show "calls (snd (crear_examen E t d fi ff qs w)) = calls w @ [?rq]"
      using f assms(1) v
      by (auto simp: crear_examen_calls split: sum.splits json.splits)
    show "List.map_filter informe (ui (snd (crear_examen E t d fi ff qs w))) =
            List.map_filter informe (ui w)"
      using f assms(1) v ms
      by (auto simp: crear_examen_def make_request_examen respuesta_examen_def
          map_filter_append List.map_filter_simps split: sum.splits)
  }
  {
    assume s: "respuesta_examen E t d fi ff w = Inr (JObj kvs) \<and> kvs \<noteq> []"
    let ?eid = "case map_of kvs ''id'' of None \<Rightarrow> JNull | Some i \<Rightarrow> i"
    have c: "crear_examen E t d fi ff qs w =
               (Termina, enviar_preguntas E ?eid qs
                  (st [OkExamen ?eid]
                     \<lparr>calls = calls w @ [?rq], ui = ui w @ snd ?ho\<rparr>))"
      using s assms(1) v
      by (simp add: crear_examen_def make_request_examen respuesta_examen_def)
    show "fst (crear_examen E t d fi ff qs w) = Termina"
      by (simp add: c)
    show "calls (snd (crear_examen E t d fi ff qs w)) =
            calls w @ ?rq # map (peticion_pregunta E ?eid) qs"
      by (simp add: c enviar_preguntas_calls)
    show "List.map_filter informe (ui (snd (crear_examen E t d fi ff qs w))) =
            List.map_filter informe (ui w) @
            resultados E (calls w @ [?rq]) (map (peticion_pregunta E ?eid) qs)"
      by (simp add: c enviar_preguntas_informes map_filter_append handle_outcome_informe
          List.map_filter_simps)
    show "length (resultados E (calls w @ [?rq]) (map (peticion_pregunta E ?eid) qs)) = length qs"
      by (simp add: length_resultados)
  }
qed

theorem question_creation_is_independent_witness:
  "map (\<lambda>r. (rq_url r, py_get (rq_json r) ''textoPregunta'', py_get (rq_json r) ''examenId''))
       (calls (snd (crear_examen (entorno servidor_demo) ''Parcial'' ''d'' (dia 1) (dia 8)
          [pregunta_demo ''q1'', pregunta_demo ''q2'', pregunta_demo ''q3''] inicio))) =
     [(''http://localhost:5000/examenes'', Inr JNull, Inr JNull),
      (''http://localhost:5000/preguntas'', Inr (JStr ''q1''), Inr (JInt 7)),
      (''http://localhost:5000/preguntas'', Inr (JStr ''q2''), Inr (JInt 7)),
      (''http://localhost:5000/preguntas'', Inr (JStr ''q3''), Inr (JInt 7))]
   \<and> List.map_filter informe
       (ui (snd (crear_examen (entorno servidor_demo) ''Parcial'' ''d'' (dia 1) (dia 8)
          [pregunta_demo ''q1'', pregunta_demo ''q2'', pregunta_demo ''q3''] inicio))) =
     [True, False, True]
   \<and> map rq_url
       (calls (snd (crear_examen (entorno (\<lambda>hist rq. respuesta_json 500 []))
          ''Parcial'' ''d'' (dia 1) (dia 8)
          [pregunta_demo ''q1'', pregunta_demo ''q2'', pregunta_demo ''q3''] inicio))) =
     [''http://localhost:5000/examenes'']"
proof -
  let ?E = "entorno servidor_demo"
  let ?F = "entorno (\<lambda>hist rq. respuesta_json 500 [])"
  let ?qs = "[pregunta_demo ''q1'', pregunta_demo ''q2'', pregunta_demo ''q3'']"
  let ?kvs = "[(''id'', JInt 7)]"
  let ?eid = "case map_of ?kvs ''id'' of None \<Rightarrow> JNull | Some i \<Rightarrow> i"
  have t: "''Parcial'' \<noteq> []" by simp
  have lt: "date_lt (dia 1) (dia 8)" by (simp add: date_lt_def dia_def)
  note T = question_creation_is_independent [OF t lt]
  have ok: "respuesta_examen ?E ''Parcial'' ''d'' (dia 1) (dia 8) inicio = Inr (JObj ?kvs)
            \<and> ?kvs \<noteq> []"
    by code_simp
  from T [where E = "?E" and d = "''d''" and w = inicio and kvs = "?kvs" and qs = "?qs",
          THEN conjunct2, THEN mp, OF ok]
  have c: "calls (snd (crear_examen ?E ''Parcial'' ''d'' (dia 1) (dia 8) ?qs inicio)) =
             calls inicio @ peticion_examen ?E ''Parcial'' ''d'' (dia 1) (dia 8) #
               map (peticion_pregunta ?E ?eid) ?qs"
    and i: "List.map_filter informe
              (ui (snd (crear_examen ?E ''Parcial'' ''d'' (dia 1) (dia 8) ?qs inicio))) =
            List.map_filter informe (ui inicio) @
            resultados ?E (calls inicio @ [peticion_examen ?E ''Parcial'' ''d'' (dia 1) (dia 8)])
              (map (peticion_pregunta ?E ?eid) ?qs)"
    by simp_all
  have c': "map (\<lambda>r. (rq_url r, py_get (rq_json r) ''textoPregunta'', py_get (rq_json r) ''examenId''))
              (calls inicio @ peticion_examen ?E ''Parcial'' ''d'' (dia 1) (dia 8) #
                 map (peticion_pregunta ?E ?eid) ?qs) =
     [(''http://localhost:5000/examenes'', Inr JNull, Inr JNull),
      (''http://localhost:5000/preguntas'', Inr (JStr ''q1''), Inr (JInt 7)),
      (''http://localhost:5000/preguntas'', Inr (JStr ''q2''), Inr (JInt 7)),
      (''http://localhost:5000/preguntas'', Inr (JStr ''q3''), Inr (JInt 7))]"
    by code_simp
  have i': "List.map_filter informe (ui inicio) @
            resultados ?E (calls inicio @ [peticion_examen ?E ''Parcial'' ''d'' (dia 1) (dia 8)])
              (map (peticion_pregunta ?E ?eid) ?qs) = [True, False, True]"
    by code_simp
  have bad: "\<forall>v. respuesta_examen ?F ''Parcial'' ''d'' (dia 1) (dia 8) inicio = Inr v
               \<longrightarrow> \<not> truthy v"
  proof -
    have "respuesta_examen ?F ''Parcial'' ''d'' (dia 1) (dia 8) inicio = Inr JNull"
      by code_simp
    then show ?thesis by simp
  qed
  from T [where E = "?F" and d = "''d''" and w = inicio and qs = "?qs",
          THEN conjunct1, THEN mp, OF bad]
  have f: "calls (snd (crear_examen ?F ''Parcial'' ''d'' (dia 1) (dia 8) ?qs inicio)) =
             calls inicio @ [peticion_examen ?F ''Parcial'' ''d'' (dia 1) (dia 8)]"
    by simp
  have f': "map rq_url (calls inicio @ [peticion_examen ?F ''Parcial'' ''d'' (dia 1) (dia 8)]) =
              [''http://localhost:5000/examenes'']"
    by code_simp
  show ?thesis
    unfolding c i f c' i' f' by simp
qed

section \<open>Submitting answers: results\<close>

lemma procesar_respuestasTexto:
  "procesar_respuestas ps rs p0 = Inr p \<Longrightarrow>
     (abiertas rs = [] \<longrightarrow> respuestasTexto p = respuestasTexto p0)
     \<and> (abiertas rs \<noteq> [] \<longrightarrow>
          (\<exists>n. py_int (fst (last (abiertas rs))) = Inr n
               \<and> respuestasTexto p = Some (n, contenido (snd (last (abiertas rs))))))"
proof (induction rs arbitrary: p0)
  case Nil
  then show ?case by (simp add: abiertas_def)
next
  case (Cons kv rs)
  obtain k r where kv: "kv = (k, r)" by (cases kv)
  show ?case
  proof (cases "tipo r = ''SELECCION_UNICA''")
    case True
    with Cons.prems kv obtain i where
      "procesar_respuestas ps rs (p0\<lparr>opcionesSeleccionadas := opcionesSeleccionadas p0 @ [i]\<rparr>) = Inr p"
      by (auto split: sum.splits)
    from Cons.IH [OF this] True kv show ?thesis
      by (simp add: abiertas_def)
  next
    case su: False
    show ?thesis
    proof (cases "tipo r = ''TEXTO_ABIERTO''")
      case True
      with Cons.prems kv su obtain n where n: "py_int k = Inr n"
        and rest: "procesar_respuestas ps rs (p0\<lparr>respuestasTexto := Some (n, contenido r)\<rparr>) = Inr p"
        by (auto split: sum.splits)
      from Cons.IH [OF rest] True kv n show ?thesis
        by (auto simp: abiertas_def)
    next
      case False
      with Cons.prems kv su have "procesar_respuestas ps rs p0 = Inr p"
        by simp
      from Cons.IH [OF this] False kv show ?thesis
        by (simp add: abiertas_def)
    qed
  qed
qed

lemma enviar_examen_calls:
  "armar_payload eid ps rs = Inr p \<Longrightarrow>
     calls (snd (enviar_examen E eid ps rs w)) = calls w @ [peticion_resultados E p]"
  by (simp add: enviar_examen_def peticion_resultados_def Let_def split: outcome.splits)

lemma campo_respuestasTexto:
  "campo (payload_json p) ''respuestasTexto'' =
     (case respuestasTexto p of
        None \<Rightarrow> None
      | Some (n, t) \<Rightarrow> Some (JObj [(''preguntaId'', JInt n), (''respuesta'', JStr t)]))"
  by (simp add: payload_json_def split: option.splits)

text \<open>
  Claim C10. Whenever the payload is built, the request sent to the results endpoint
  carries it, and its field \<open>respuestasTexto\<close> is absent when the session holds
  no open-text answer; otherwise it is the single record
  \<open>{preguntaId, respuesta}\<close> of the open-text answer the loop meets last, so the
  earlier open-text answers are not in the payload.
\<close>

theorem only_last_open_text_is_sent:
  assumes "armar_payload eid ps rs = Inr p"
  shows "calls (snd (enviar_examen E eid ps rs w)) = calls w @ [peticion_resultados E p]
       \<and> rq_json (peticion_resultados E p) = payload_json p
       \<and> (abiertas rs = [] \<longrightarrow> campo (payload_json p) ''respuestasTexto'' = None)
       \<and> (abiertas rs \<noteq> [] \<longrightarrow>
            (\<exists>n. py_int (fst (last (abiertas rs))) = Inr n
                 \<and> campo (payload_json p) ''respuestasTexto'' =
                     Some (JObj [(''preguntaId'', JInt n),
                                 (''respuesta'', JStr (contenido (snd (last (abiertas rs)))))])))"
proof -
  from assms have
    "procesar_respuestas ps rs
       \<lparr>examenId = eid, opcionesSeleccionadas = [], respuestasTexto = None\<rparr> = Inr p"
    by (simp add: armar_payload_def)
  from procesar_respuestasTexto [OF this]
  have a: "abiertas rs = [] \<longrightarrow> respuestasTexto p = None"
    and b: "abiertas rs \<noteq> [] \<longrightarrow>
          (\<exists>n. py_int (fst (last (abiertas rs))) = Inr n
               \<and> respuestasTexto p = Some (n, contenido (snd (last (abiertas rs)))))"
    by simp_all
  from a have a': "abiertas rs = [] \<longrightarrow> campo (payload_json p) ''respuestasTexto'' = None"
    by (simp add: campo_respuestasTexto)
  from b have b': "abiertas rs \<noteq> [] \<longrightarrow>
            (\<exists>n. py_int (fst (last (abiertas rs))) = Inr n
                 \<and> campo (payload_json p) ''respuestasTexto'' =
                     Some (JObj [(''preguntaId'', JInt n),
                                 (''respuesta'', JStr (contenido (snd (last (abiertas rs)))))]))"
    by (auto simp: campo_respuestasTexto)
  from enviar_examen_calls [OF assms] a' b' show ?thesis
    by (simp add: peticion_resultados_def)
qed

theorem only_last_open_text_is_sent_witness:
  "map rq_json (calls (snd (enviar_examen (entorno servidor_demo) 5
       [pregunta_abierta 1 ''Explique'', pregunta_abierta 3 ''Comente'']
       [(JInt 1, \<lparr>tipo = ''TEXTO_ABIERTO'', contenido = ''uno''\<rparr>),
        (JInt 3, \<lparr>tipo = ''TEXTO_ABIERTO'', contenido = ''tres''\<rparr>)] inicio))) =
     [JObj [(''examenId'', JInt 5), (''opcionesSeleccionadas'', JList []),
            (''respuestasTexto'',
             JObj [(''preguntaId'', JInt 3), (''respuesta'', JStr ''tres'')])]]
   \<and> map rq_json (calls (snd (enviar_examen (entorno servidor_demo) 5
       [pregunta_abierta 1 ''Explique'', pregunta_abierta 3 ''Comente''] [] inicio))) =
     [JObj [(''examenId'', JInt 5), (''opcionesSeleccionadas'', JList [])]]"
proof -
  let ?E = "entorno servidor_demo"
  let ?ps = "[pregunta_abierta 1 ''Explique'', pregunta_abierta 3 ''Comente'']"
  let ?rs = "[(JInt 1, \<lparr>tipo = ''TEXTO_ABIERTO'', contenido = ''uno''\<rparr>),
              (JInt 3, \<lparr>tipo = ''TEXTO_ABIERTO'', contenido = ''tres''\<rparr>)]"
  let ?p = "\<lparr>examenId = 5, opcionesSeleccionadas = [], respuestasTexto = Some (3, ''tres'')\<rparr>"
  let ?p2 = "\<lparr>examenId = 5, opcionesSeleccionadas = [], respuestasTexto = None\<rparr>"
  have h: "armar_payload 5 ?ps ?rs = Inr ?p" by code_simp
  have h2: "armar_payload 5 ?ps [] = Inr ?p2" by code_simp
  note T = only_last_open_text_is_sent
  have a: "calls (snd (enviar_examen ?E 5 ?ps ?rs inicio)) =
             calls inicio @ [peticion_resultados ?E ?p]"
    using T [OF h, THEN conjunct1] .
  have b: "calls (snd (enviar_examen ?E 5 ?ps [] inicio)) =
             calls inicio @ [peticion_resultados ?E ?p2]"
    using T [OF h2, THEN conjunct1] .
  show ?thesis
    unfolding a b
    by (simp add: inicio_def peticion_resultados_def payload_json_def)
qed

section \<open>Recording answers: results\<close>

text \<open>
  On a page of well-formed open-text questions the loop never fails, and it leaves the
  session that reading the text areas in turn gives.
\<close>

lemma mostrar_abiertas:
  "list_all2 abierta ps ns \<Longrightarrow> mostrar_preguntas ta ps rs = (None, anotar ta ns rs)"
proof (induction ps ns arbitrary: rs rule: list_all2_induct)
  case Nil
  show ?case by simp
next
  case (Cons q ps n ns)
  from Cons.hyps(1) obtain kvs where q: "q = JObj kvs"
    by (cases q) (simp_all add: abierta_def)
  from Cons.hyps(1) q have
    i: "map_of kvs ''id'' = Some (JInt n)" and
    t: "map_of kvs ''textoPregunta'' \<noteq> None" and
    tp: "map_of kvs ''tipo'' = Some (JStr ''TEXTO_ABIERTO'')"
    by (auto simp: abierta_def split: option.splits)
  from t obtain tt where t': "map_of kvs ''textoPregunta'' = Some tt"
    by auto
  show ?case
    by (simp add: q i t' tp guardar_def Cons.IH)
qed

lemma map_of_anotar:
  "map_of (anotar ta ns rs) k =
     (if k \<in> JInt ` set ns \<and> ta k \<noteq> []
      then Some \<lparr>tipo = ''TEXTO_ABIERTO'', contenido = ta k\<rparr> else map_of rs k)"
proof (induction ns arbitrary: rs)
  case Nil
  show ?case by simp
next
  case (Cons n ns)
  show ?case
    by (auto simp: Cons.IH AList.update_conv')
qed

lemma distinct_anotar:
  "distinct (map fst rs) \<Longrightarrow> distinct (map fst (anotar ta ns rs))"
  by (induction ns arbitrary: rs) (simp_all add: AList.distinct_update)

lemma no_single_choice_recorded:
  "list_all (\<lambda>kv. tipo (snd kv) \<noteq> ''SELECCION_UNICA'') rs \<Longrightarrow>
     list_all (\<lambda>kv. tipo (snd kv) \<noteq> ''SELECCION_UNICA'') (snd (mostrar_preguntas ta ps rs))"
proof (induction ps arbitrary: rs)
  case Nil
  then show ?case by simp
next
  case (Cons q ps)
  have u: "list_all (\<lambda>kv. tipo (snd kv) \<noteq> ''SELECCION_UNICA'')
             (AList.update k \<lparr>tipo = ''TEXTO_ABIERTO'', contenido = r\<rparr> rs)" for k r
    using Cons.prems
    by (induction rs) auto
  show ?case
    using Cons.prems u
    by (auto simp: st_radio_opciones_def guardar_def Cons.IH split: sum.splits)
qed

text \<open>
  Claim C1. An exam with a single-choice question cannot be answered: drawing the
  question raises \<open>TypeError\<close> at the call of \<open>st.radio\<close>, whatever the
  widgets hold and whether or not the button is pressed. The exception leaves the page
  with the session and the calls as they were: no single-choice answer is stored, no
  option id is resolved, nothing is sent.
\<close>

theorem single_choice_question_stops_the_page:
  "pagina_examen E eid (JList [pregunta_capital]) ta boton rs w = (Propaga TypeError, rs, w)"
  by (simp add: pagina_examen_def pregunta_capital_def st_radio_opciones_def)

text \<open>
  The expression meant to resolve the label, taken on its own, does not look at the
  question's options either: it runs over the exam's questions and reads their key
  \<open>texto\<close>, which a question as the page draws it (key \<open>textoPregunta\<close>)
  does not have.
\<close>

lemma lookup_reads_the_questions:
  "next_opcion [pregunta_capital] ''B'' = Inl (KeyError ''texto'')"
  by (simp add: pregunta_capital_def)

text \<open>
  Claim C9. For a single-choice question no answer is ever recorded, so none can
  replace an earlier one or reach the submission: on a page with an open-text question
  and a single-choice question, each run stores the open text, then stops with
  \<open>TypeError\<close> at the single-choice question; the session never holds an entry for
  that question, and with the button pressed nothing is sent.
\<close>

theorem single_choice_answer_is_never_recorded:
  "mostrar_preguntas (\<lambda>k. ''hola'') [pregunta_abierta 1 ''Explique'', pregunta_capital] [] =
     (Some TypeError, [(JInt 1, \<lparr>tipo = ''TEXTO_ABIERTO'', contenido = ''hola''\<rparr>)])
   \<and> mostrar_preguntas (\<lambda>k. ''hola'') [pregunta_abierta 1 ''Explique'', pregunta_capital]
       [(JInt 1, \<lparr>tipo = ''TEXTO_ABIERTO'', contenido = ''hola''\<rparr>)] =
     (Some TypeError, [(JInt 1, \<lparr>tipo = ''TEXTO_ABIERTO'', contenido = ''hola''\<rparr>)])
   \<and> map_of [(JInt 1, \<lparr>tipo = ''TEXTO_ABIERTO'', contenido = ''hola''\<rparr>)] (JInt 7) = None
   \<and> pagina_examen (entorno servidor_demo) 5
       (JList [pregunta_abierta 1 ''Explique'', pregunta_capital]) (\<lambda>k. ''hola'') True
       [(JInt 1, \<lparr>tipo = ''TEXTO_ABIERTO'', contenido = ''hola''\<rparr>)] inicio =
     (Propaga TypeError, [(JInt 1, \<lparr>tipo = ''TEXTO_ABIERTO'', contenido = ''hola''\<rparr>)], inicio)"
  by (simp add: pagina_examen_def pregunta_abierta_def pregunta_capital_def guardar_def
      st_radio_opciones_def)

text \<open>
  What the page does record, it records as the claim describes. For well-formed
  open-text questions with different ids: after two runs of the page, a question whose
  text area is not empty in the second run maps to that later text; the keys of the
  session stay distinct; and for an exam of one question the payload built afterwards
  carries the later text alone.
\<close>

lemma later_text_replaces_earlier:
  assumes "list_all2 abierta ps ns" and "distinct ns" and "n \<in> set ns"
    and "ta2 (JInt n) \<noteq> []"
  shows "fst (mostrar_preguntas ta1 ps rs) = None
       \<and> fst (mostrar_preguntas ta2 ps (snd (mostrar_preguntas ta1 ps rs))) = None
       \<and> map_of (snd (mostrar_preguntas ta2 ps (snd (mostrar_preguntas ta1 ps rs)))) (JInt n) =
           Some \<lparr>tipo = ''TEXTO_ABIERTO'', contenido = ta2 (JInt n)\<rparr>
       \<and> (distinct (map fst rs) \<longrightarrow>
            distinct (map fst (snd (mostrar_preguntas ta2 ps (snd (mostrar_preguntas ta1 ps rs))))))
       \<and> (ps = [q] \<and> rs = [] \<longrightarrow>
            armar_payload eid ps (snd (mostrar_preguntas ta2 ps (snd (mostrar_preguntas ta1 ps rs)))) =
              Inr \<lparr>examenId = eid, opcionesSeleccionadas = [],
                   respuestasTexto = Some (n, ta2 (JInt n))\<rparr>)"
proof -
  have r: "mostrar_preguntas ta ps rs' = (None, anotar ta ns rs')" for ta rs'
    using assms(1) by (rule mostrar_abiertas)
  have m: "map_of (anotar ta2 ns (anotar ta1 ns rs)) (JInt n) =
             Some \<lparr>tipo = ''TEXTO_ABIERTO'', contenido = ta2 (JInt n)\<rparr>"
    using assms(3,4) by (simp add: map_of_anotar)
  have d: "distinct (map fst rs) \<longrightarrow> distinct (map fst (anotar ta2 ns (anotar ta1 ns rs)))"
    by (simp add: distinct_anotar)
  have p: "ps = [q] \<and> rs = [] \<longrightarrow>
            armar_payload eid ps (anotar ta2 ns (anotar ta1 ns rs)) =
              Inr \<lparr>examenId = eid, opcionesSeleccionadas = [],
                   respuestasTexto = Some (n, ta2 (JInt n))\<rparr>"
  proof
    assume a: "ps = [q] \<and> rs = []"
    with assms(1) obtain k where "ns = [k]"
      by (auto simp: list_all2_Cons1)
    with assms(3) have ns: "ns = [n]" by simp
    show "armar_payload eid ps (anotar ta2 ns (anotar ta1 ns rs)) =
              Inr \<lparr>examenId = eid, opcionesSeleccionadas = [],
                   respuestasTexto = Some (n, ta2 (JInt n))\<rparr>"
      using a assms(4) by (simp add: ns armar_payload_def)
  qed
  show ?thesis
    unfolding r fst_conv snd_conv using m d p by blast
qed

lemma later_text_replaces_earlier_example:
  "mostrar_preguntas (\<lambda>k. if k = JInt 1 then ''primero'' else [])
       [pregunta_abierta 1 ''Explique'', pregunta_abierta 3 ''Comente''] [] =
     (None, [(JInt 1, \<lparr>tipo = ''TEXTO_ABIERTO'', contenido = ''primero''\<rparr>)])
   \<and> map_of (snd (mostrar_preguntas (\<lambda>k. if k = JInt 1 then ''segundo'' else ''otro'')
       [pregunta_abierta 1 ''Explique'', pregunta_abierta 3 ''Comente'']
       (snd (mostrar_preguntas (\<lambda>k. if k = JInt 1 then ''primero'' else [])
          [pregunta_abierta 1 ''Explique'', pregunta_abierta 3 ''Comente''] [])))) (JInt 1) =
     Some \<lparr>tipo = ''TEXTO_ABIERTO'', contenido = ''segundo''\<rparr>
   \<and> armar_payload 5 [pregunta_abierta 1 ''Explique'']
       (snd (mostrar_preguntas (\<lambda>k. ''segundo'') [pregunta_abierta 1 ''Explique'']
          (snd (mostrar_preguntas (\<lambda>k. ''primero'') [pregunta_abierta 1 ''Explique''] [])))) =
     Inr \<lparr>examenId = 5, opcionesSeleccionadas = [], respuestasTexto = Some (1, ''segundo'')\<rparr>"
proof -
  let ?q1 = "pregunta_abierta 1 ''Explique''"
  let ?q3 = "pregunta_abierta 3 ''Comente''"
  let ?ta1 = "\<lambda>k. if k = JInt 1 then ''primero'' else []"
  let ?ta2 = "\<lambda>k. if k = JInt 1 then ''segundo'' else ''otro''"
  have w1: "abierta ?q1 1" and w3: "abierta ?q3 3"
    by (simp_all add: abierta_def pregunta_abierta_def)
  have l2: "list_all2 abierta [?q1, ?q3] [1, 3]"
    using w1 w3 by simp
  have l1: "list_all2 abierta [?q1] [1]"
    using w1 by simp
  have d2: "distinct [1, 3 :: int]" by simp
  have d1: "distinct [1 :: int]" by simp
  have i2: "(1 :: int) \<in> set [1, 3]" by simp
  have i1: "(1 :: int) \<in> set [1]" by simp
  have n2: "?ta2 (JInt 1) \<noteq> []" by simp
  have n1: "(\<lambda>k. ''segundo'') (JInt 1) \<noteq> []" by simp
  have a: "mostrar_preguntas ?ta1 [?q1, ?q3] [] =
             (None, [(JInt 1, \<lparr>tipo = ''TEXTO_ABIERTO'', contenido = ''primero''\<rparr>)])"
    by (simp add: pregunta_abierta_def guardar_def)
  have b: "map_of (snd (mostrar_preguntas ?ta2 [?q1, ?q3]
              (snd (mostrar_preguntas ?ta1 [?q1, ?q3] [])))) (JInt 1) =
           Some \<lparr>tipo = ''TEXTO_ABIERTO'', contenido = ''segundo''\<rparr>"
    using later_text_replaces_earlier [where ?ta2.0 = "?ta2" and n = 1 and ?ta1.0 = "?ta1"
            and rs = "[]", OF l2 d2 i2 n2, THEN conjunct2, THEN conjunct2, THEN conjunct1]
    by (simp only: refl if_True)
  have c: "armar_payload 5 [?q1]
       (snd (mostrar_preguntas (\<lambda>k. ''segundo'') [?q1]
          (snd (mostrar_preguntas (\<lambda>k. ''primero'') [?q1] [])))) =
     Inr \<lparr>examenId = 5, opcionesSeleccionadas = [], respuestasTexto = Some (1, ''segundo'')\<rparr>"
    using later_text_replaces_earlier [where ?ta2.0 = "\<lambda>k. ''segundo''" and n = 1
            and ?ta1.0 = "\<lambda>k. ''primero''" and rs = "[]" and q = "?q1" and eid = 5,
            OF l1 d1 i1 n1, THEN conjunct2, THEN conjunct2, THEN conjunct2, THEN conjunct2]
    by simp
  from a b c show ?thesis by simp
qed

end
